theory Spec2Isabelle
  imports Complex_Main
begin

section \<open>GeoGrapher: the coordinate-geometry engine\<close>

text \<open>
  A shallow embedding of \<^verbatim>\<open>geographer/core\<close>. Python floats are modelled as
  real numbers and their arithmetic as exact, except where a property below depends on
  rounding or overflow: \<^verbatim>\<open>distance\<close>, \<^verbatim>\<open>midpoint\<close> and the second model of
  \<^verbatim>\<open>Line.from_points\<close> compute in IEEE 754 binary64, as the code does. What NumPy's
  linear algebra returns is an argument of the model. A raised exception is the left
  injection of a sum type, a returned value the right one. Of \<^verbatim>\<open>ComputationResult\<close> the fields \<^verbatim>\<open>status\<close>,
  \<^verbatim>\<open>op\<close>, \<^verbatim>\<open>payload\<close> and \<^verbatim>\<open>warnings\<close> are modelled; \<^verbatim>\<open>steps\<close>
  (formatted text) and \<^verbatim>\<open>plot_elements\<close> (render hints) are left out, but a call
  of the repository's own code that is made to build them and can raise is kept, in the
  order of the source, since its exception ends the operation.
\<close>

subsection \<open>utils.py\<close>

datatype exn = ValueError string | ZeroDivisionError | AttributeError string | OverflowError

text \<open>
  A Python float as a value of binary64: a finite double, given by its real value, an
  infinity or a NaN. The sign of zero is not modelled.
\<close>

datatype f64 = Fin real | PInf | NInf | NaN

datatype pyval =
    PStr string
  | PNum real
  | PFloat f64
  | PBool bool
  | PNone
  | PTuple "pyval list"
  | PList "pyval list"
  | PDict "(string \<times> pyval) list"

record computation_result =
  status :: string
  op :: string
  payload :: "(string \<times> pyval) list"
  warnings :: "string list"

definition EPS :: real where
  "EPS = 1 / 10 ^ 9"

subsection \<open>Binary64 arithmetic\<close>

text \<open>
  Rounding to the nearest double, ties to the even significand. \<open>expo x\<close> is the
  exponent of the unit in the last place of x: 52 below the exponent of x for a normal
  number, and -1074 in the subnormal range. A rounded value beyond the largest double
  overflows to an infinity.
\<close>

definition expo :: "real \<Rightarrow> int" where
  "expo x = max (\<lfloor>log 2 \<bar>x\<bar>\<rfloor> - 52) (- 1074)"

definition round_even :: "real \<Rightarrow> int" where
  "round_even y =
     (let f = \<lfloor>y\<rfloor> in
      if y - of_int f < 1 / 2 then f
      else if 1 / 2 < y - of_int f then f + 1
      else if even f then f else f + 1)"

definition fl :: "real \<Rightarrow> real" where
  "fl x = (if x = 0 then 0 else of_int (round_even (x / 2 powi expo x)) * 2 powi expo x)"

definition max64 :: real where
  "max64 = (2 ^ 53 - 1) * 2 ^ 971"

definition to_f64 :: "real \<Rightarrow> f64" where
  "to_f64 x = (let y = fl x in if max64 < y then PInf else if y < - max64 then NInf else Fin y)"

text \<open>A real number that is a finite double: rounding leaves it as it is.\<close>

definition is_double :: "real \<Rightarrow> bool" where
  "is_double x = (fl x = x \<and> \<bar>x\<bar> \<le> max64)"

fun fneg :: "f64 \<Rightarrow> f64" where
  "fneg (Fin a) = Fin (- a)"
| "fneg PInf = NInf"
| "fneg NInf = PInf"
| "fneg NaN = NaN"

fun fadd :: "f64 \<Rightarrow> f64 \<Rightarrow> f64" where
  "fadd (Fin a) (Fin b) = to_f64 (a + b)"
| "fadd NaN b = NaN"
| "fadd a NaN = NaN"
| "fadd PInf NInf = NaN"
| "fadd NInf PInf = NaN"
| "fadd PInf b = PInf"
| "fadd NInf b = NInf"
| "fadd a PInf = PInf"
| "fadd a NInf = NInf"

definition fsub :: "f64 \<Rightarrow> f64 \<Rightarrow> f64" where
  "fsub a b = fadd a (fneg b)"

text \<open>Division by the constant 2.\<close>

fun fdiv2 :: "f64 \<Rightarrow> f64" where
  "fdiv2 (Fin a) = to_f64 (a / 2)"
| "fdiv2 PInf = PInf"
| "fdiv2 NInf = NInf"
| "fdiv2 NaN = NaN"

text \<open>
  Python's \<^verbatim>\<open>x ** 2\<close> on a float: the square, taken as correctly rounded, and an
  \<^verbatim>\<open>OverflowError\<close> where a finite x has a square beyond the largest double.
\<close>

fun fpow2 :: "f64 \<Rightarrow> exn + f64" where
  "fpow2 (Fin a) = (if to_f64 (a * a) = PInf then Inl OverflowError else Inr (to_f64 (a * a)))"
| "fpow2 PInf = Inr PInf"
| "fpow2 NInf = Inr PInf"
| "fpow2 NaN = Inr NaN"

text \<open>\<^verbatim>\<open>np.sqrt\<close> on a float.\<close>

fun fsqrt :: "f64 \<Rightarrow> f64" where
  "fsqrt (Fin a) = (if a < 0 then NaN else to_f64 (sqrt a))"
| "fsqrt PInf = PInf"
| "fsqrt NInf = NaN"
| "fsqrt NaN = NaN"

text \<open>Sequencing of calls that may raise: the first exception ends the computation.\<close>

definition exn_bind :: "exn + 'a \<Rightarrow> ('a \<Rightarrow> exn + 'b) \<Rightarrow> exn + 'b" where
  "exn_bind r f = (case r of Inl e \<Rightarrow> Inl e | Inr v \<Rightarrow> f v)"

subsection \<open>points.py\<close>

record point =
  pt_x :: real
  pt_y :: real
  pt_label :: "string option"

definition Point :: "real \<Rightarrow> real \<Rightarrow> string option \<Rightarrow> point" where
  "Point a b l = \<lparr>pt_x = a, pt_y = b, pt_label = l\<rparr>"

definition as_tuple :: "point \<Rightarrow> real \<times> real" where
  "as_tuple p = (pt_x p, pt_y p)"

text \<open>Python's truth value of an optional string: \<^verbatim>\<open>None\<close> and \<^verbatim>\<open>""\<close> are false.\<close>

fun truthy :: "string option \<Rightarrow> bool" where
  "truthy None = False"
| "truthy (Some s) = (s \<noteq> [])"

definition point_payload :: "point \<Rightarrow> (string \<times> pyval) list" where
  "point_payload p =
     [(''x'', PNum (pt_x p)), (''y'', PNum (pt_y p))] @
     (if truthy (pt_label p) then [(''label'', PStr (the (pt_label p)))] else [])"

definition pair_val :: "real \<times> real \<Rightarrow> pyval" where
  "pair_val c = PTuple [PNum (fst c), PNum (snd c)]"

text \<open>
  The coordinates of an argument point are finite doubles, given by their real values.
  A computed point can have an infinite or NaN coordinate.
\<close>

record point64 =
  p64_x :: f64
  p64_y :: f64
  p64_label :: "string option"

definition point_payload64 :: "point64 \<Rightarrow> (string \<times> pyval) list" where
  "point_payload64 p =
     [(''x'', PFloat (p64_x p)), (''y'', PFloat (p64_y p))] @
     (if truthy (p64_label p) then [(''label'', PStr (the (p64_label p)))] else [])"

definition distance :: "point \<Rightarrow> point \<Rightarrow> exn + computation_result" where
  "distance point_a point_b =
     (let (ax, ay) = as_tuple point_a;
          (bx, by) = as_tuple point_b;
          dx = to_f64 (bx - ax);
          dy = to_f64 (by - ay)
      in exn_bind (fpow2 dx) (\<lambda>dx2.
         exn_bind (fpow2 dy) (\<lambda>dy2.
           let squared = fadd dx2 dy2;
               dist = fsqrt squared
           in Inr \<lparr>status = ''ok'', op = ''distance'',
                   payload = [(''distance'', PFloat dist)], warnings = []\<rparr>)))"

definition midpoint :: "point \<Rightarrow> point \<Rightarrow> computation_result" where
  "midpoint point_a point_b =
     (let mx = fdiv2 (to_f64 (pt_x point_a + pt_x point_b));
          my = fdiv2 (to_f64 (pt_y point_a + pt_y point_b));
          mid = \<lparr>p64_x = mx, p64_y = my, p64_label = Some ''M''\<rparr>
      in \<lparr>status = ''ok'', op = ''midpoint'',
           payload = [(''midpoint'', PDict (point_payload64 mid))], warnings = []\<rparr>)"

text \<open>
  Python's \<^verbatim>\<open>/\<close> raises \<^verbatim>\<open>ZeroDivisionError\<close> on a zero divisor; the first of the
  two divisions of a branch already does.
\<close>

definition section_point :: "point \<Rightarrow> point \<Rightarrow> real \<times> real \<Rightarrow> bool \<Rightarrow> exn + computation_result" where
  "section_point point_a point_b ratio external =
     (let (m, n) = ratio in
      if external then
        (if m - n = 0 then Inl ZeroDivisionError
         else
           let px = (m * pt_x point_a - n * pt_x point_b) / (m - n);
               py = (m * pt_y point_a - n * pt_y point_b) / (m - n);
               section = Point px py (Some ''P_ext'')
           in Inr \<lparr>status = ''ok'', op = ''section_point_external'',
                    payload = [(''point'', PDict (point_payload section))], warnings = []\<rparr>)
      else
        (if m + n = 0 then Inl ZeroDivisionError
         else
           let px = (m * pt_x point_a + n * pt_x point_b) / (m + n);
               py = (m * pt_y point_a + n * pt_y point_b) / (m + n);
               section = Point px py (Some ''P'')
           in Inr \<lparr>status = ''ok'', op = ''section_point'',
                    payload = [(''point'', PDict (point_payload section))], warnings = []\<rparr>))"

text \<open>
  The label of the point is the text \<^verbatim>\<open>P(t)\<close> with t formatted to two significant
  digits; the formatted number is an argument of the model.
\<close>

definition parametric_point :: "point \<Rightarrow> point \<Rightarrow> real \<Rightarrow> string \<Rightarrow> computation_result" where
  "parametric_point point_a point_b t t_text =
     (let (ax, ay) = as_tuple point_a;
          (bx, by) = as_tuple point_b;
          px = ax + t * (bx - ax);
          py = ay + t * (by - ay);
          param = Point px py (Some (''P('' @ t_text @ '')''))
      in \<lparr>status = ''ok'', op = ''parametric_point'',
           payload = [(''point'', PDict (point_payload param))], warnings = []\<rparr>)"

text \<open>Observers used to state properties of a call's outcome.\<close>

definition status_of :: "exn + computation_result \<Rightarrow> string option" where
  "status_of r = (case r of Inl e \<Rightarrow> None | Inr c \<Rightarrow> Some (status c))"

definition payload_of :: "exn + computation_result \<Rightarrow> (string \<times> pyval) list" where
  "payload_of r = (case r of Inl e \<Rightarrow> [] | Inr c \<Rightarrow> payload c)"

text \<open>\<^verbatim>\<open>d[k]\<close> for a dictionary kept in insertion order.\<close>

definition dict_get :: "(string \<times> pyval) list \<Rightarrow> string \<Rightarrow> pyval option" where
  "dict_get d k = map_of d k"

text \<open>\<^verbatim>\<open>(payload[k]["x"], payload[k]["y"])\<close> of a point stored as a dictionary under k.\<close>

definition point_coords :: "(string \<times> pyval) list \<Rightarrow> string \<Rightarrow> (pyval option \<times> pyval option)" where
  "point_coords d k =
     (case dict_get d k of
        Some (PDict q) \<Rightarrow> (dict_get q ''x'', dict_get q ''y'')
      | _ \<Rightarrow> (None, None))"

subsection \<open>lines.py\<close>

record line =
  line_A :: real
  line_B :: real
  line_C :: real
  line_label :: "string option"

definition Line :: "real \<Rightarrow> real \<Rightarrow> real \<Rightarrow> string option \<Rightarrow> line" where
  "Line a b c l = \<lparr>line_A = a, line_B = b, line_C = c, line_label = l\<rparr>"

text \<open>\<^verbatim>\<open>np.hypot\<close>.\<close>

definition hypot :: "real \<Rightarrow> real \<Rightarrow> real" where
  "hypot a b = sqrt (a\<^sup>2 + b\<^sup>2)"

definition normalized :: "line \<Rightarrow> exn + line" where
  "normalized l =
     (let norm = hypot (line_A l) (line_B l) in
      if norm \<le> EPS
      then Inl (ValueError ''Degenerate line coefficients: both A and B near zero'')
      else Inr (Line (line_A l / norm) (line_B l / norm) (line_C l / norm) (line_label l)))"

definition from_points :: "point \<Rightarrow> point \<Rightarrow> string option \<Rightarrow> exn + line" where
  "from_points p1 p2 label =
     (if as_tuple p1 = as_tuple p2
      then Inl (ValueError ''Cannot define a line with two identical points'')
      else
        let (x1, y1) = as_tuple p1;
            (x2, y2) = as_tuple p2;
            A = y1 - y2;
            B = x2 - x1;
            C = x1 * y2 - x2 * y1
        in Inr (Line A B C label))"

text \<open>
  The same constructor with the arithmetic of the code: each difference and each product
  is rounded to a double, and a product can overflow. The real-valued \<open>from_points\<close>
  above says which formulas are evaluated; this one says what they evaluate to.
\<close>

record line64 =
  l64_A :: f64
  l64_B :: f64
  l64_C :: f64
  l64_label :: "string option"

definition from_points_f64 :: "point \<Rightarrow> point \<Rightarrow> string option \<Rightarrow> exn + line64" where
  "from_points_f64 p1 p2 label =
     (if as_tuple p1 = as_tuple p2
      then Inl (ValueError ''Cannot define a line with two identical points'')
      else
        let (x1, y1) = as_tuple p1;
            (x2, y2) = as_tuple p2;
            A = to_f64 (y1 - y2);
            B = to_f64 (x2 - x1);
            C = fsub (to_f64 (x1 * y2)) (to_f64 (x2 * y1))
        in Inr \<lparr>l64_A = A, l64_B = B, l64_C = C, l64_label = label\<rparr>)"

definition from_general :: "real \<Rightarrow> real \<Rightarrow> real \<Rightarrow> string option \<Rightarrow> exn + line" where
  "from_general A B C label =
     (if \<bar>A\<bar> \<le> EPS \<and> \<bar>B\<bar> \<le> EPS
      then Inl (ValueError ''Invalid general form: A and B cannot both be zero'')
      else Inr (Line A B C label))"

definition slope :: "line \<Rightarrow> real option" where
  "slope l = (if \<bar>line_B l\<bar> \<le> EPS then None else Some (- line_A l / line_B l))"

definition intercept :: "line \<Rightarrow> real option" where
  "intercept l = (if \<bar>line_B l\<bar> \<le> EPS then None else Some (- line_C l / line_B l))"

definition x_intercept :: "line \<Rightarrow> real option" where
  "x_intercept l = (if \<bar>line_A l\<bar> \<le> EPS then None else Some (- line_C l / line_A l))"

definition sample_points :: "line \<Rightarrow> exn + (point \<times> point)" where
  "sample_points l =
     (if \<bar>line_B l\<bar> \<le> EPS then
        (if line_A l = 0 then Inl ZeroDivisionError
         else let x = - line_C l / line_A l in Inr (Point x 0 None, Point x 1 None))
      else
        let y1 = (- line_C l - line_A l * 0) / line_B l;
            y2 = (- line_C l - line_A l * 1) / line_B l
        in Inr (Point 0 y1 None, Point 1 y2 None))"

definition opt_num :: "real option \<Rightarrow> pyval" where
  "opt_num v = (case v of None \<Rightarrow> PNone | Some r \<Rightarrow> PNum r)"

definition display :: "line \<Rightarrow> (string \<times> pyval) list" where
  "display l =
     [(''A'', PNum (line_A l)), (''B'', PNum (line_B l)), (''C'', PNum (line_C l))] @
     (if truthy (line_label l) then [(''label'', PStr (the (line_label l)))] else []) @
     (case slope l of
        Some slope_value \<Rightarrow>
          [(''slope'', PNum slope_value), (''y_intercept'', opt_num (intercept l))]
      | None \<Rightarrow>
          [(''vertical'', PBool True), (''x_intercept'', opt_num (x_intercept l))])"

text \<open>The label of \<^verbatim>\<open>line_from_points\<close> is U+2113, three bytes in UTF-8.\<close>

definition script_l :: string where
  "script_l = [CHR 0xE2, CHR 0x84, CHR 0x93]"

definition line_from_points :: "point \<Rightarrow> point \<Rightarrow> exn + computation_result" where
  "line_from_points p1 p2 =
     exn_bind (from_points p1 p2 (Some script_l)) (\<lambda>l.
     exn_bind (sample_points l) (\<lambda>ends.
       Inr \<lparr>status = ''ok'', op = ''line_from_points'',
            payload = [(''line'', PDict (display l))], warnings = []\<rparr>))"

subsection \<open>The SymPy calls of lines.py\<close>

text \<open>
  \<^verbatim>\<open>intersection\<close> hands both lines to SymPy's geometry module, which is a library
  and not part of the repository. The three calls it makes are modelled here after
  SymPy's behaviour, with the quotients that SymPy forms from the float coefficients
  taken as exact:
  \<^item> \<^verbatim>\<open>Line(Eq(a*x + b*y + c, 0))\<close> is the line through \<open>(0, -c/b)\<close> with slope
    \<open>-a/b\<close> when \<open>b \<noteq> 0\<close>, the vertical line through \<open>(-c/a, 0)\<close> when only
    \<open>a \<noteq> 0\<close>, and a \<^verbatim>\<open>ValueError\<close> otherwise;
  \<^item> \<^verbatim>\<open>Line(Point2D(x, 0), slope=None)\<close> raises \<^verbatim>\<open>ValueError\<close>: the constructor
    wants a second point or a slope that is not \<^verbatim>\<open>None\<close>;
  \<^item> \<^verbatim>\<open>l1.intersection(l2)\<close> is \<^verbatim>\<open>[l2]\<close> for coincident lines, \<^verbatim>\<open>[]\<close> for
    parallel distinct lines and the one common point otherwise.
  An entity of the answer has the attributes \<^verbatim>\<open>x\<close> and \<^verbatim>\<open>y\<close> only when it is a
  point. Where SymPy rounds a quotient, two lines that are parallel over the reals can
  meet for SymPy; no property below is about parallel distinct lines.
\<close>

type_synonym sym_line = "(real \<times> real) \<times> (real \<times> real)"

datatype sym_entity = SymPoint2D real real | SymLine2D "real \<times> real" "real \<times> real"

definition sym_line_of_equation :: "real \<Rightarrow> real \<Rightarrow> real \<Rightarrow> exn + sym_line" where
  "sym_line_of_equation a b c =
     (if b \<noteq> 0 then Inr ((0, - c / b), (1, - c / b + - a / b))
      else if a \<noteq> 0 then Inr ((- c / a, 0), (- c / a, 1))
      else Inl (ValueError ''not found in equation''))"

definition sym_line_slope_none :: "real \<times> real \<Rightarrow> exn + sym_line" where
  "sym_line_slope_none p = Inl (ValueError ''A 2nd Point or keyword slope must be used.'')"

definition cross :: "real \<times> real \<Rightarrow> real \<times> real \<Rightarrow> real" where
  "cross u v = fst u * snd v - snd u * fst v"

definition vsub :: "real \<times> real \<Rightarrow> real \<times> real \<Rightarrow> real \<times> real" where
  "vsub u v = (fst u - fst v, snd u - snd v)"

definition sym_intersection :: "sym_line \<Rightarrow> sym_line \<Rightarrow> sym_entity list" where
  "sym_intersection s1 s2 =
     (let (p1, p2) = s1;
          (q1, q2) = s2;
          d1 = vsub p2 p1;
          d2 = vsub q2 q1
      in if cross d1 d2 = 0 then
           (if cross d1 (vsub q1 p1) = 0 then [SymLine2D q1 q2] else [])
         else
           let t = cross (vsub q1 p1) d2 / cross d1 d2
           in [SymPoint2D (fst p1 + t * fst d1) (snd p1 + t * snd d1)])"

fun entity_x :: "sym_entity \<Rightarrow> exn + real" where
  "entity_x (SymPoint2D a b) = Inr a"
| "entity_x (SymLine2D p q) = Inl (AttributeError ''x'')"

fun entity_y :: "sym_entity \<Rightarrow> exn + real" where
  "entity_y (SymPoint2D a b) = Inr b"
| "entity_y (SymLine2D p q) = Inl (AttributeError ''y'')"

subsection \<open>lines.py, the operations\<close>

definition as_sympy :: "line \<Rightarrow> exn + sym_line" where
  "as_sympy l =
     (if \<bar>line_B l\<bar> \<le> EPS then
        (if line_A l = 0 then Inl ZeroDivisionError
         else let x_val = - line_C l / line_A l in sym_line_slope_none (x_val, 0))
      else sym_line_of_equation (line_A l) (line_B l) (line_C l))"

definition intersection :: "line \<Rightarrow> line \<Rightarrow> exn + computation_result" where
  "intersection line1 line2 =
     exn_bind (as_sympy line1) (\<lambda>sym_line1.
     exn_bind (as_sympy line2) (\<lambda>sym_line2.
       case sym_intersection sym_line1 sym_line2 of
         [] \<Rightarrow>
           Inr \<lparr>status = ''warning'', op = ''intersection'',
                payload = [(''message'', PStr ''Lines are parallel or coincident'')],
                warnings = [''parallel_lines'']\<rparr>
       | first # others \<Rightarrow>
           exn_bind (entity_x first) (\<lambda>ix.
           exn_bind (entity_y first) (\<lambda>iy.
           let intersection_point = Point ix iy (Some ''I'') in
           exn_bind (sample_points line1) (\<lambda>ends1.
           exn_bind (sample_points line2) (\<lambda>ends2.
             Inr \<lparr>status = ''ok'', op = ''intersection'',
                  payload = [(''point'', pair_val (as_tuple intersection_point))],
                  warnings = []\<rparr>))))))"

text \<open>\<^verbatim>\<open>math.atan2\<close> and \<^verbatim>\<open>math.degrees\<close>.\<close>

definition atan2 :: "real \<Rightarrow> real \<Rightarrow> real" where
  "atan2 v u =
     (if 0 < u then arctan (v / u)
      else if u < 0 then (if 0 \<le> v then arctan (v / u) + pi else arctan (v / u) - pi)
      else if 0 < v then pi / 2
      else if v < 0 then - (pi / 2)
      else 0)"

definition degrees :: "real \<Rightarrow> real" where
  "degrees r = r * 180 / pi"

definition angle_between_lines :: "line \<Rightarrow> line \<Rightarrow> exn + computation_result" where
  "angle_between_lines line1 line2 =
     exn_bind
       (case (slope line1, slope line2) of
          (None, None) \<Rightarrow> Inr 0
        | (None, Some m2) \<Rightarrow> Inr 90
        | (Some m1, None) \<Rightarrow> Inr 90
        | (Some m1, Some m2) \<Rightarrow>
            if 1 + m1 * m2 = 0 then Inl ZeroDivisionError
            else
              let tan_theta = \<bar>(m2 - m1) / (1 + m1 * m2)\<bar>
              in Inr (degrees (atan2 tan_theta 1)))
       (\<lambda>angle.
     exn_bind (sample_points line1) (\<lambda>ends1.
     exn_bind (sample_points line2) (\<lambda>ends2.
     exn_bind
       (if angle \<noteq> 0 \<and> angle \<noteq> 90
        then exn_bind (intersection line1 line2) (\<lambda>r. Inr (dict_get (payload r) ''point''))
        else Inr None)
       (\<lambda>vertex.
         Inr \<lparr>status = ''ok'', op = ''angle_between_lines'',
              payload = [(''angle_degrees'', PNum angle)], warnings = []\<rparr>))))"

definition foot_of_perpendicular :: "line \<Rightarrow> point \<Rightarrow> exn + computation_result" where
  "foot_of_perpendicular l p =
     exn_bind (normalized l) (\<lambda>n.
       let A = line_A n; B = line_B n; C = line_C n;
           foot_x = (B * (B * pt_x p - A * pt_y p) - A * C) / (A\<^sup>2 + B\<^sup>2);
           foot_y = (A * (- B * pt_x p + A * pt_y p) - B * C) / (A\<^sup>2 + B\<^sup>2);
           foot_point = Point foot_x foot_y (Some ''F'')
       in Inr \<lparr>status = ''ok'', op = ''foot_of_perpendicular'',
               payload = [(''point'', pair_val (as_tuple foot_point))], warnings = []\<rparr>)"

text \<open>
  \<^verbatim>\<open>np.hypot\<close> gives a NumPy float, so the quotient below does not raise on a zero
  denominator; \<^verbatim>\<open>normalized\<close>, called next, raises for such a line.
\<close>

definition distance_from_point :: "line \<Rightarrow> point \<Rightarrow> exn + computation_result" where
  "distance_from_point l p =
     (let numerator = \<bar>line_A l * pt_x p + line_B l * pt_y p + line_C l\<bar>;
          denominator = hypot (line_A l) (line_B l);
          dist = numerator / denominator
      in exn_bind (foot_of_perpendicular l p) (\<lambda>foot.
         exn_bind (sample_points l) (\<lambda>ends.
           Inr \<lparr>status = ''ok'', op = ''distance_point_line'',
                payload = [(''distance'', PNum dist)], warnings = []\<rparr>)))"

text \<open>
  The two bisectors carry NumPy floats, on which \<^verbatim>\<open>sample_points\<close> does not raise;
  its points go to the plot only.
\<close>

definition angle_bisectors :: "line \<Rightarrow> line \<Rightarrow> exn + computation_result" where
  "angle_bisectors line1 line2 =
     exn_bind (normalized line1) (\<lambda>l1.
     exn_bind (normalized line2) (\<lambda>l2.
       let bisector1 = Line (line_A l1 + line_A l2) (line_B l1 + line_B l2)
                         (line_C l1 + line_C l2) (Some ''bisector1'');
           bisector2 = Line (line_A l1 - line_A l2) (line_B l1 - line_B l2)
                         (line_C l1 - line_C l2) (Some ''bisector2'')
       in Inr \<lparr>status = ''ok'', op = ''angle_bisectors'',
               payload = [(''internal'', PDict (display bisector1)),
                          (''external'', PDict (display bisector2))],
               warnings = []\<rparr>))"

text \<open>A line that \<^verbatim>\<open>Line.from_general\<close> accepts.\<close>

definition valid_line :: "line \<Rightarrow> bool" where
  "valid_line l = (\<not> (\<bar>line_A l\<bar> \<le> EPS \<and> \<bar>line_B l\<bar> \<le> EPS))"

subsection \<open>conics.py\<close>

definition parabola_y2_4ax :: "real \<Rightarrow> exn + computation_result" where
  "parabola_y2_4ax a =
     (if a = 0 then
        Inr \<lparr>status = ''error'', op = ''parabola_y2_4ax'',
             payload = [(''message'', PStr ''Parameter 'a' must be non-zero'')],
             warnings = [''degenerate'']\<rparr>
      else
        let focus = Point a 0 (Some ''F'') in
        exn_bind (from_general 1 0 (- a) (Some ''directrix'')) (\<lambda>directrix.
          Inr \<lparr>status = ''ok'', op = ''parabola_y2_4ax'',
               payload =
                 [(''vertex'', pair_val (0, 0)),
                  (''focus'', pair_val (as_tuple focus)),
                  (''directrix'', PDict [(''A'', PNum 1), (''B'', PNum 0), (''C'', PNum (- a))]),
                  (''axis'', PStr ''x-axis''),
                  (''latus_rectum'', PNum \<bar>4 * a\<bar>),
                  (''parametric'', PDict [(''x'', PStr ''at^2''), (''y'', PStr ''2at'')])],
               warnings = []\<rparr>))"

definition parabola_x2_4ay :: "real \<Rightarrow> exn + computation_result" where
  "parabola_x2_4ay a =
     (if a = 0 then
        Inr \<lparr>status = ''error'', op = ''parabola_x2_4ay'',
             payload = [(''message'', PStr ''Parameter 'a' must be non-zero'')],
             warnings = [''degenerate'']\<rparr>
      else
        let focus = Point 0 a (Some ''F'') in
        exn_bind (from_general 0 1 (- a) (Some ''directrix'')) (\<lambda>directrix.
          Inr \<lparr>status = ''ok'', op = ''parabola_x2_4ay'',
               payload =
                 [(''vertex'', pair_val (0, 0)),
                  (''focus'', pair_val (as_tuple focus)),
                  (''directrix'', PDict [(''A'', PNum 0), (''B'', PNum 1), (''C'', PNum (- a))]),
                  (''axis'', PStr ''y-axis''),
                  (''latus_rectum'', PNum \<bar>4 * a\<bar>),
                  (''parametric'', PDict [(''x'', PStr ''2at''), (''y'', PStr ''at^2'')])],
               warnings = []\<rparr>))"

definition ellipse_standard :: "real \<Rightarrow> real \<Rightarrow> computation_result" where
  "ellipse_standard a b =
     (if a \<le> 0 \<or> b \<le> 0 then
        \<lparr>status = ''error'', op = ''ellipse_standard'',
         payload = [(''message'', PStr ''Semi-axes must be positive'')],
         warnings = [''degenerate'']\<rparr>
      else
        let c = sqrt \<bar>a\<^sup>2 - b\<^sup>2\<bar>;
            eccentricity = c / max a b;
            focus1 = (c, 0);
            focus2 = (- c, 0)
        in \<lparr>status = ''ok'', op = ''ellipse_standard'',
             payload =
               [(''semi_major'', PNum (max a b)),
                (''semi_minor'', PNum (min a b)),
                (''foci'', PList [pair_val focus1, pair_val focus2]),
                (''eccentricity'', PNum eccentricity),
                (''parametric'', PDict [(''x'', PStr ''a cos t''), (''y'', PStr ''b sin t'')])],
             warnings = []\<rparr>)"

definition hyperbola_standard :: "real \<Rightarrow> real \<Rightarrow> computation_result" where
  "hyperbola_standard a b =
     (if a \<le> 0 \<or> b \<le> 0 then
        \<lparr>status = ''error'', op = ''hyperbola_standard'',
         payload = [(''message'', PStr ''Semi-axes must be positive'')],
         warnings = [''degenerate'']\<rparr>
      else
        let c = sqrt (a\<^sup>2 + b\<^sup>2);
            eccentricity = c / a;
            asymptote_slope = b / a
        in \<lparr>status = ''ok'', op = ''hyperbola_standard'',
             payload =
               [(''foci'', PList [pair_val (c, 0), pair_val (- c, 0)]),
                (''eccentricity'', PNum eccentricity),
                (''asymptotes'',
                   PList [PDict [(''A'', PNum asymptote_slope), (''B'', PNum (- 1)), (''C'', PNum 0)],
                          PDict [(''A'', PNum (- asymptote_slope)), (''B'', PNum (- 1)), (''C'', PNum 0)]])],
             warnings = []\<rparr>)"

definition classify_general_quadratic ::
  "real \<Rightarrow> real \<Rightarrow> real \<Rightarrow> real \<Rightarrow> real \<Rightarrow> real \<Rightarrow> computation_result" where
  "classify_general_quadratic A B C D E F =
     (let discriminant = B\<^sup>2 - 4 * A * C;
          conic_type =
            (if discriminant < 0 then (if A = C then ''ellipse'' else ''imaginary ellipse'')
             else if discriminant = 0 then ''parabola''
             else ''hyperbola'')
      in \<lparr>status = ''ok'', op = ''classify_quadratic'',
           payload = [(''discriminant'', PNum discriminant), (''type'', PStr conic_type)],
           warnings = []\<rparr>)"

text \<open>
  \<^verbatim>\<open>line_conic_intersection\<close> leaves the algebra to SymPy's \<^verbatim>\<open>solve\<close>. The model takes
  the solver's two answers as arguments: whether the line equation could be solved for
  one variable, and the points that the roots of the substituted quadratic give.
\<close>

definition line_conic_intersection ::
  "line \<Rightarrow> (string \<rightharpoonup> real) \<Rightarrow> bool \<Rightarrow> (real \<times> real) list \<Rightarrow> computation_result" where
  "line_conic_intersection l coeffs substitution_found points =
     (if \<not> substitution_found then
        \<lparr>status = ''error'', op = ''line_conic_intersection'',
         payload = [(''message'', PStr ''Unable to parametrize line'')], warnings = []\<rparr>
      else
        \<lparr>status = ''ok'', op = ''line_conic_intersection'',
         payload = [(''points'', PList (map pair_val points))], warnings = []\<rparr>)"

subsection \<open>matrices.py\<close>

type_synonym matrix = "real list list"

text \<open>
  \<^verbatim>\<open>np.array(matrix, dtype=float)\<close> of a list of rows: an empty list is one-dimensional
  and rows of different lengths are refused, both with a \<^verbatim>\<open>ValueError\<close>.
\<close>

definition ensure_matrix :: "matrix \<Rightarrow> exn + matrix" where
  "ensure_matrix m =
     (case m of
        [] \<Rightarrow> Inl (ValueError ''Matrix must be two-dimensional'')
      | r # rs \<Rightarrow>
          if list_all (\<lambda>q. length q = length r) rs then Inr m
          else Inl (ValueError ''inhomogeneous shape''))"

definition shape :: "matrix \<Rightarrow> nat \<times> nat" where
  "shape m = (length m, (case m of [] \<Rightarrow> 0 | r # rs \<Rightarrow> length r))"

definition mat_add :: "matrix \<Rightarrow> matrix \<Rightarrow> matrix" where
  "mat_add a b = map2 (map2 (+)) a b"

definition columns :: "matrix \<Rightarrow> real list list" where
  "columns b = map (\<lambda>j. map (\<lambda>r. r ! j) b) [0..<snd (shape b)]"

definition mat_mul :: "matrix \<Rightarrow> matrix \<Rightarrow> matrix" where
  "mat_mul a b = map (\<lambda>r. map (\<lambda>c. sum_list (map2 (*) r c)) (columns b)) a"

text \<open>
  \<^verbatim>\<open>np.linalg.det\<close> and \<^verbatim>\<open>np.linalg.inv\<close> are NumPy's: the determinant is the
  floating-point value of an LU factorisation, not the exact determinant of the matrix.
  The value and the inverse that NumPy returns are arguments of the models below.
\<close>

definition mat_val :: "matrix \<Rightarrow> pyval" where
  "mat_val m = PList (map (\<lambda>r. PList (map PNum r)) m)"

definition matrix_addition :: "matrix \<Rightarrow> matrix \<Rightarrow> exn + computation_result" where
  "matrix_addition a b =
     exn_bind (ensure_matrix a) (\<lambda>mat_a.
     exn_bind (ensure_matrix b) (\<lambda>mat_b.
       if shape mat_a \<noteq> shape mat_b then
         Inr \<lparr>status = ''error'', op = ''matrix_addition'',
              payload = [(''message'', PStr ''Matrices must share the same shape'')],
              warnings = []\<rparr>
       else
         Inr \<lparr>status = ''ok'', op = ''matrix_addition'',
              payload = [(''result'', mat_val (mat_add mat_a mat_b))], warnings = []\<rparr>))"

definition matrix_multiplication :: "matrix \<Rightarrow> matrix \<Rightarrow> exn + computation_result" where
  "matrix_multiplication a b =
     exn_bind (ensure_matrix a) (\<lambda>mat_a.
     exn_bind (ensure_matrix b) (\<lambda>mat_b.
       if snd (shape mat_a) \<noteq> fst (shape mat_b) then
         Inr \<lparr>status = ''error'', op = ''matrix_multiplication'',
              payload = [(''message'', PStr ''Inner dimensions must agree'')],
              warnings = []\<rparr>
       else
         Inr \<lparr>status = ''ok'', op = ''matrix_multiplication'',
              payload = [(''result'', mat_val (mat_mul mat_a mat_b))], warnings = []\<rparr>))"

definition matrix_determinant :: "matrix \<Rightarrow> real \<Rightarrow> exn + computation_result" where
  "matrix_determinant m np_det =
     exn_bind (ensure_matrix m) (\<lambda>mat.
       if fst (shape mat) \<noteq> snd (shape mat) then
         Inr \<lparr>status = ''error'', op = ''matrix_determinant'',
              payload = [(''message'', PStr ''Matrix must be square'')], warnings = []\<rparr>
       else
         Inr \<lparr>status = ''ok'', op = ''matrix_determinant'',
              payload = [(''determinant'', PNum np_det)], warnings = []\<rparr>)"

definition matrix_inverse :: "matrix \<Rightarrow> real \<Rightarrow> matrix \<Rightarrow> exn + computation_result" where
  "matrix_inverse m np_det np_inv =
     exn_bind (ensure_matrix m) (\<lambda>mat.
       if fst (shape mat) \<noteq> snd (shape mat) then
         Inr \<lparr>status = ''error'', op = ''matrix_inverse'',
              payload = [(''message'', PStr ''Matrix must be square'')], warnings = []\<rparr>
       else
         let d = np_det in
         if \<bar>d\<bar> < EPS then
           Inr \<lparr>status = ''warning'', op = ''matrix_inverse'',
                payload = [(''message'', PStr ''Matrix is nearly singular'')],
                warnings = [''singular_matrix'']\<rparr>
         else
           Inr \<lparr>status = ''ok'', op = ''matrix_inverse'',
                payload = [(''inverse'', mat_val np_inv), (''determinant'', PNum d)],
                warnings = []\<rparr>)"

text \<open>A square matrix: a non-empty list of n rows of length n.\<close>

definition square_matrix :: "matrix \<Rightarrow> bool" where
  "square_matrix m = (m \<noteq> [] \<and> list_all (\<lambda>r. length r = length m) m)"

text \<open>
  \<^verbatim>\<open>eigen_analysis\<close> takes the eigenpairs from SymPy's \<^verbatim>\<open>eigenvects\<close>; they are an
  argument of the model: value, multiplicity and first eigenvector of each.
\<close>

definition eigen_analysis :: "matrix \<Rightarrow> (real \<times> nat \<times> real list) list \<Rightarrow> computation_result" where
  "eigen_analysis m eigenpairs =
     \<lparr>status = ''ok'', op = ''eigen_analysis'',
      payload =
        [(''eigenpairs'',
          PList (map (\<lambda>(eigenvalue, multiplicity, vector).
                    PDict [(''value'', PNum eigenvalue),
                           (''vector'', PList (map PNum vector)),
                           (''multiplicity'', PNum (real multiplicity))]) eigenpairs))],
      warnings = []\<rparr>"

text \<open>\<^verbatim>\<open>np.linspace(a, b, n)\<close>.\<close>

definition linspace :: "real \<Rightarrow> real \<Rightarrow> nat \<Rightarrow> real list" where
  "linspace a b n = map (\<lambda>k. a + (b - a) * real k / real (n - 1)) [0..<n]"

definition unit_circle_samples :: "nat \<Rightarrow> (real \<times> real) list" where
  "unit_circle_samples n = map (\<lambda>theta. (cos theta, sin theta)) (linspace 0 (2 * pi) n)"

definition grid_samples :: "(real \<times> real) list" where
  "grid_samples =
     concat (map (\<lambda>x_val. map (\<lambda>y_val. (x_val, y_val)) (linspace (- 1) 1 5)) (linspace (- 1) 1 5))"

text \<open>
  The samples are points of the plane, so the product \<^verbatim>\<open>mat @ points.T\<close> needs a
  matrix with two columns; NumPy raises a \<^verbatim>\<open>ValueError\<close> for any other.
\<close>

definition matrix_transform :: "matrix \<Rightarrow> string \<Rightarrow> real \<Rightarrow> exn + computation_result" where
  "matrix_transform m shape_name np_det =
     exn_bind (ensure_matrix m) (\<lambda>mat.
       if fst (shape mat) \<noteq> snd (shape mat) then
         Inr \<lparr>status = ''error'', op = ''matrix_transform'',
              payload = [(''message'', PStr ''Matrix must be square'')], warnings = []\<rparr>
       else if fst (shape mat) \<noteq> 2 \<and> fst (shape mat) \<noteq> 3 then
         Inr \<lparr>status = ''error'', op = ''matrix_transform'',
              payload = [(''message'', PStr ''Only 2x2 or 3x3 matrices supported'')],
              warnings = []\<rparr>
       else
         exn_bind
           (if shape_name = ''unit_circle'' then Inr (unit_circle_samples 200)
            else if shape_name = ''grid'' then Inr grid_samples
            else Inl (ValueError ''Unsupported shape''))
           (\<lambda>points.
              if snd (shape mat) \<noteq> 2 then Inl (ValueError ''matmul: mismatch in core dimension'')
              else
                let transformed =
                      map (\<lambda>(u, v). map (\<lambda>r. r ! 0 * u + r ! 1 * v) mat) points;
                    d = (if fst (shape mat) = 2 then PNum np_det else PNone)
                in Inr \<lparr>status = ''ok'', op = ''matrix_transform'',
                        payload = [(''determinant'', d), (''transformed'', mat_val transformed)],
                        warnings = []\<rparr>))"

subsection \<open>circles.py\<close>

record circle =
  circle_center :: point
  circle_radius :: real
  circle_label :: "string option"

definition circle_display :: "circle \<Rightarrow> (string \<times> pyval) list" where
  "circle_display c =
     [(''center'', pair_val (as_tuple (circle_center c))), (''radius'', PNum (circle_radius c))] @
     (if truthy (circle_label c) then [(''label'', PStr (the (circle_label c)))] else [])"

definition circle_summary :: "circle \<Rightarrow> computation_result" where
  "circle_summary c =
     \<lparr>status = ''ok'', op = ''circle_summary'', payload = circle_display c, warnings = []\<rparr>"

text \<open>
  The intersections, tangents and the radical axis come from SymPy's \<^verbatim>\<open>Circle\<close>; the
  answer of the library is an argument of each model: the common points, or the
  coefficient triples of the lines.
\<close>

definition line_circle_intersection ::
  "circle \<Rightarrow> line \<Rightarrow> (real \<times> real) list \<Rightarrow> exn + computation_result" where
  "line_circle_intersection c l points =
     exn_bind (as_sympy l) (\<lambda>sym_line.
       if points = [] then
         Inr \<lparr>status = ''warning'', op = ''line_circle_intersection'',
              payload = [(''message'', PStr ''No real intersection'')],
              warnings = [''no_real_intersection'']\<rparr>
       else
         exn_bind (sample_points l) (\<lambda>ends.
           Inr \<lparr>status = ''ok'', op = ''line_circle_intersection'',
                payload = [(''points'', PList (map pair_val points))], warnings = []\<rparr>))"

definition circle_circle_intersection ::
  "circle \<Rightarrow> circle \<Rightarrow> (real \<times> real) list \<Rightarrow> computation_result" where
  "circle_circle_intersection circle1 circle2 points =
     (if points = [] then
        \<lparr>status = ''warning'', op = ''circle_circle_intersection'',
         payload = [(''message'', PStr ''No real intersection'')],
         warnings = [''no_real_intersection'']\<rparr>
      else
        \<lparr>status = ''ok'', op = ''circle_circle_intersection'',
         payload = [(''points'', PList (map pair_val points))], warnings = []\<rparr>)"

text \<open>The decimal digits of a natural number, for the labels \<^verbatim>\<open>t1\<close>, \<^verbatim>\<open>t2\<close>, ...\<close>

fun digits :: "nat \<Rightarrow> nat \<Rightarrow> string" where
  "digits 0 n = []"
| "digits (Suc fuel) n =
     (if n < 10 then [char_of (48 + n)]
      else digits fuel (n div 10) @ [char_of (48 + n mod 10)])"

definition str_nat :: "nat \<Rightarrow> string" where
  "str_nat n = digits (Suc n) n"

fun tangent_displays ::
  "nat \<Rightarrow> (real \<times> real \<times> real) list \<Rightarrow> exn + (string \<times> pyval) list list" where
  "tangent_displays idx [] = Inr []"
| "tangent_displays idx ((a, b, c) # rest) =
     exn_bind (from_general a b c (Some (''t'' @ str_nat (idx + 1)))) (\<lambda>tangent_line.
     exn_bind (sample_points tangent_line) (\<lambda>ends.
     exn_bind (tangent_displays (idx + 1) rest) (\<lambda>more.
       Inr (display tangent_line # more))))"

definition tangents_from_external_point ::
  "circle \<Rightarrow> point \<Rightarrow> (real \<times> real \<times> real) list \<Rightarrow> exn + computation_result" where
  "tangents_from_external_point c p tangent_lines =
     (if tangent_lines = [] then
        Inr \<lparr>status = ''warning'', op = ''tangents_from_point'',
             payload = [(''message'', PStr ''Point lies inside the circle'')],
             warnings = [''no_tangent'']\<rparr>
      else
        exn_bind (tangent_displays 0 tangent_lines) (\<lambda>lines_payload.
          Inr \<lparr>status = ''ok'', op = ''tangents_from_point'',
               payload = [(''tangents'', PList (map PDict lines_payload))], warnings = []\<rparr>))"

definition radical_axis ::
  "circle \<Rightarrow> circle \<Rightarrow> real \<times> real \<times> real \<Rightarrow> exn + computation_result" where
  "radical_axis circle1 circle2 coeffs =
     (let (a, b, c) = coeffs in
      exn_bind (from_general a b c (Some ''radical_axis'')) (\<lambda>l.
      exn_bind (sample_points l) (\<lambda>ends.
        Inr \<lparr>status = ''ok'', op = ''radical_axis'',
             payload = [(''line'', PDict (display l))], warnings = []\<rparr>)))"

subsection \<open>triangles.py\<close>

record triangle_metrics =
  tri_a :: point
  tri_b :: point
  tri_c :: point

definition side_lengths :: "triangle_metrics \<Rightarrow> real \<times> real \<times> real" where
  "side_lengths t =
     (let norm2 = (\<lambda>p q. sqrt ((pt_x p - pt_x q)\<^sup>2 + (pt_y p - pt_y q)\<^sup>2));
          ab = norm2 (tri_a t) (tri_b t);
          bc = norm2 (tri_b t) (tri_c t);
          ca = norm2 (tri_c t) (tri_a t)
      in (ab, bc, ca))"

definition centroid :: "triangle_metrics \<Rightarrow> point" where
  "centroid t =
     (let mx = (pt_x (tri_a t) + pt_x (tri_b t) + pt_x (tri_c t)) / 3;
          my = (pt_y (tri_a t) + pt_y (tri_b t) + pt_y (tri_c t)) / 3
      in Point mx my (Some ''G''))"

definition classification :: "triangle_metrics \<Rightarrow> (string \<times> pyval) list" where
  "classification t =
     (let (ab, bc, ca) = side_lengths t;
          sides = sort [ab, bc, ca];
          equilateral = (Max (set sides) - Min (set sides) \<le> EPS);
          isosceles = (\<bar>ab - bc\<bar> \<le> EPS \<or> \<bar>bc - ca\<bar> \<le> EPS \<or> \<bar>ca - ab\<bar> \<le> EPS);
          right = (\<bar>(sides ! 2)\<^sup>2 - ((sides ! 0)\<^sup>2 + (sides ! 1)\<^sup>2)\<bar> \<le> 1 / 10 ^ 6)
      in [(''equilateral'', PBool equilateral),
          (''isosceles'', PBool isosceles),
          (''right'', PBool right),
          (''scalene'', PBool (\<not> equilateral \<and> \<not> isosceles))])"

text \<open>
  Area, circumcenter, incenter, orthocenter and the two radii come from SymPy's
  \<^verbatim>\<open>Triangle\<close> and \<^verbatim>\<open>Polygon\<close>; they are arguments of the model.
\<close>

definition triangle_summary ::
  "triangle_metrics \<Rightarrow> real \<Rightarrow> real \<times> real \<Rightarrow> real \<times> real \<Rightarrow> real \<times> real \<Rightarrow> real \<Rightarrow> real
     \<Rightarrow> computation_result" where
  "triangle_summary t area_value circumcenter incenter orthocenter circumradius_value inradius_value =
     (let centroid_point = centroid t;
          sides = side_lengths t
      in \<lparr>status = ''ok'', op = ''triangle_summary'',
           payload =
             [(''area'', PNum area_value),
              (''centroid'', pair_val (as_tuple centroid_point)),
              (''circumcenter'', pair_val circumcenter),
              (''incenter'', pair_val incenter),
              (''orthocenter'', pair_val orthocenter),
              (''circumradius'', PNum circumradius_value),
              (''inradius'', PNum inradius_value),
              (''classification'', PDict (classification t)),
              (''side_lengths'',
                 PDict [(''AB'', PNum (fst sides)),
                        (''BC'', PNum (fst (snd sides))),
                        (''CA'', PNum (snd (snd sides)))])],
           warnings = []\<rparr>)"

subsection \<open>locus.py\<close>

definition perpendicular_bisector :: "point \<Rightarrow> point \<Rightarrow> exn + computation_result" where
  "perpendicular_bisector a b =
     (let midpoint_x = (pt_x a + pt_x b) / 2;
          midpoint_y = (pt_y a + pt_y b) / 2;
          direction = (- (pt_y b - pt_y a), pt_x b - pt_x a)
      in exn_bind
           (from_general (fst direction) (snd direction)
              (- (fst direction * midpoint_x + snd direction * midpoint_y))
              (Some ''perp_bisector'')) (\<lambda>l.
         exn_bind (sample_points l) (\<lambda>ends.
           Inr \<lparr>status = ''ok'', op = ''perpendicular_bisector'',
                payload = [(''line'', PDict (display l))], warnings = []\<rparr>)))"

definition apollonius_circle :: "point \<Rightarrow> point \<Rightarrow> real \<times> real \<Rightarrow> computation_result" where
  "apollonius_circle point_a point_b ratio =
     (let (m, n) = ratio in
      if m \<le> 0 \<or> n \<le> 0 then
        \<lparr>status = ''error'', op = ''apollonius_circle'',
         payload = [(''message'', PStr ''Ratio parts must be positive'')], warnings = []\<rparr>
      else
        let (ax, ay) = as_tuple point_a;
            (bx, by) = as_tuple point_b;
            center_x = (m * bx + n * ax) / (m + n);
            center_y = (m * by + n * ay) / (m + n);
            radius = \<bar>m * n\<bar> / (m + n) * sqrt ((bx - ax)\<^sup>2 + (by - ay)\<^sup>2) / m;
            circle_center = Point center_x center_y (Some ''C'')
        in \<lparr>status = ''ok'', op = ''apollonius_circle'',
             payload = [(''center'', pair_val (as_tuple circle_center)), (''radius'', PNum radius)],
             warnings = []\<rparr>)"

fun pair_midpoints :: "point list \<Rightarrow> (real \<times> real) list" where
  "pair_midpoints (a # b # rest) =
     ((pt_x a + pt_x b) / 2, (pt_y a + pt_y b) / 2) # pair_midpoints rest"
| "pair_midpoints rest = []"

definition locus_midpoints :: "point list \<Rightarrow> computation_result" where
  "locus_midpoints pts =
     \<lparr>status = ''ok'', op = ''locus_midpoints'',
      payload = [(''midpoints'', PList (map pair_val (pair_midpoints pts)))], warnings = []\<rparr>"

subsection \<open>transforms.py\<close>

definition apply_translation :: "point list \<Rightarrow> real \<Rightarrow> real \<Rightarrow> computation_result" where
  "apply_translation points dx dy =
     (let original = map as_tuple points;
          translated = map (\<lambda>(u, v). (u + dx, v + dy)) original
      in \<lparr>status = ''ok'', op = ''translation'',
           payload = [(''translated'', PList (map pair_val translated))], warnings = []\<rparr>)"

definition radians :: "real \<Rightarrow> real" where
  "radians d = d * pi / 180"

definition apply_rotation :: "point list \<Rightarrow> real \<Rightarrow> point option \<Rightarrow> computation_result" where
  "apply_rotation points angle_degrees pivot_arg =
     (let theta = radians angle_degrees;
          pivot = (case pivot_arg of None \<Rightarrow> Point 0 0 None | Some q \<Rightarrow> q);
          rotate = (\<lambda>(u, v).
            let shifted_x = u - pt_x pivot;
                shifted_y = v - pt_y pivot;
                rx = shifted_x * cos theta - shifted_y * sin theta;
                ry = shifted_x * sin theta + shifted_y * cos theta
            in (rx + pt_x pivot, ry + pt_y pivot));
          original = map as_tuple points;
          rotated = map rotate original
      in \<lparr>status = ''ok'', op = ''rotation'',
           payload = [(''rotated'', PList (map pair_val rotated))], warnings = []\<rparr>)"

definition apply_scaling :: "point list \<Rightarrow> real \<Rightarrow> real \<Rightarrow> point option \<Rightarrow> computation_result" where
  "apply_scaling points sx sy pivot_arg =
     (let pivot = (case pivot_arg of None \<Rightarrow> Point 0 0 None | Some q \<Rightarrow> q);
          original = map as_tuple points;
          scaled = map (\<lambda>(u, v). (pt_x pivot + sx * (u - pt_x pivot),
                                     pt_y pivot + sy * (v - pt_y pivot))) original
      in \<lparr>status = ''ok'', op = ''scaling'',
           payload = [(''scaled'', PList (map pair_val scaled))], warnings = []\<rparr>)"

text \<open>
  \<^verbatim>\<open>apply_reflection\<close> mirrors each point with SymPy's \<^verbatim>\<open>Point.reflect\<close>; the mirrored
  points are an argument of the model.
\<close>

definition apply_reflection ::
  "point list \<Rightarrow> line \<Rightarrow> (real \<times> real) list \<Rightarrow> exn + computation_result" where
  "apply_reflection points l reflected =
     exn_bind (as_sympy l) (\<lambda>sym_line.
     exn_bind (sample_points l) (\<lambda>ends.
       Inr \<lparr>status = ''ok'', op = ''reflection'',
            payload = [(''reflected'', PList (map pair_val reflected))], warnings = []\<rparr>))"

text \<open>
  The homogeneous coordinate divides NumPy floats, which does not raise; a zero there
  gives an infinity or a NaN that the reals do not have, and the quotient below is then
  the value HOL gives to a division by zero.
\<close>

definition apply_affine :: "matrix \<Rightarrow> point list \<Rightarrow> exn + computation_result" where
  "apply_affine m points =
     (if (case m of [] \<Rightarrow> False | r # rs \<Rightarrow> \<not> list_all (\<lambda>q. length q = length r) rs)
      then Inl (ValueError ''inhomogeneous shape'')
      else if shape m \<noteq> (3, 3)
      then Inl (ValueError ''Affine transform requires 3x3 homogeneous matrix'')
      else if points = [] then Inl (ValueError ''matmul: mismatch in core dimension'')
      else
        let original = map as_tuple points;
            transformed = map (\<lambda>(u, v). map (\<lambda>r. r ! 0 * u + r ! 1 * v + r ! 2 * 1) m) original;
            transformed_cartesian = map (\<lambda>row. (row ! 0 / row ! 2, row ! 1 / row ! 2)) transformed
        in Inr \<lparr>status = ''ok'', op = ''affine_transform'',
                payload = [(''transformed'', PList (map pair_val transformed_cartesian))],
                warnings = []\<rparr>)"

subsection \<open>trig.py\<close>

definition FUNCTIONS :: "string list" where
  "FUNCTIONS = [''sin'', ''cos'', ''tan'', ''cot'', ''sec'', ''csc'']"

text \<open>\<^verbatim>\<open>np.linspace\<close> refuses a negative number of samples.\<close>

definition plot_basic_trig :: "string \<Rightarrow> real \<times> real \<Rightarrow> int \<Rightarrow> exn + computation_result" where
  "plot_basic_trig func domain resolution =
     (if func \<notin> set FUNCTIONS then
        Inr \<lparr>status = ''error'', op = ''plot_trig'',
             payload = [(''message'', PStr (''Unknown function '' @ func))], warnings = []\<rparr>
      else if resolution < 0 then Inl (ValueError ''Number of samples must be non-negative'')
      else
        Inr \<lparr>status = ''ok'', op = ''plot_trig'',
             payload = [(''function'', PStr func), (''domain'', pair_val domain)],
             warnings = []\<rparr>)"

definition transform_trig ::
  "real \<Rightarrow> real \<Rightarrow> real \<Rightarrow> real \<Rightarrow> string \<Rightarrow> real \<times> real \<Rightarrow> int \<Rightarrow> exn + computation_result" where
  "transform_trig amplitude frequency phase vertical base domain resolution =
     (if base \<notin> set FUNCTIONS then
        Inr \<lparr>status = ''error'', op = ''transform_trig'',
             payload = [(''message'', PStr (''Unknown base function '' @ base))], warnings = []\<rparr>
      else if resolution < 0 then Inl (ValueError ''Number of samples must be non-negative'')
      else
        Inr \<lparr>status = ''ok'', op = ''transform_trig'',
             payload = [(''amplitude'', PNum amplitude), (''frequency'', PNum frequency),
                        (''phase'', PNum phase), (''vertical_shift'', PNum vertical)],
             warnings = []\<rparr>)"

text \<open>
  \<^verbatim>\<open>verify_identity\<close> and \<^verbatim>\<open>solve_trig_equation\<close> evaluate with SymPy; the
  differences at the samples and the solutions are arguments of the model.
\<close>

definition verify_identity :: "real list \<Rightarrow> exn + computation_result" where
  "verify_identity differences =
     (if differences = [] then Inl (ValueError ''max() arg is an empty sequence'')
      else
        let max_error = Max (set (map abs differences)) in
        Inr \<lparr>status = (if max_error < 1 / 10 ^ 6 then ''ok'' else ''warning''),
             op = ''verify_trig_identity'',
             payload = [(''max_error'', PNum max_error)],
             warnings = (if max_error \<ge> 1 / 10 ^ 6 then [''numerical_tolerance''] else [])\<rparr>)"

definition solve_trig_equation :: "real list \<Rightarrow> computation_result" where
  "solve_trig_equation numeric =
     \<lparr>status = ''ok'', op = ''solve_trig_equation'',
      payload = [(''solutions'', PList (map PNum numeric))], warnings = []\<rparr>"

subsection \<open>calculus.py\<close>

text \<open>
  \<^verbatim>\<open>FunctionAnalyzer\<close> differentiates, integrates and expands with SymPy; what the
  library computes is an argument of each model.
\<close>

definition analyzer_plot :: "real \<times> real \<Rightarrow> int \<Rightarrow> bool \<Rightarrow> string \<Rightarrow> exn + computation_result" where
  "analyzer_plot domain resolution show_derivative derivative_text =
     (if resolution < 0 then Inl (ValueError ''Number of samples must be non-negative'')
      else
        Inr \<lparr>status = ''ok'', op = ''plot_function'',
             payload = [(''domain'', pair_val domain)] @
                       (if show_derivative then [(''derivative'', PStr derivative_text)] else []),
             warnings = []\<rparr>)"

definition derivative_at :: "real \<Rightarrow> real \<Rightarrow> real \<Rightarrow> computation_result" where
  "derivative_at x0 slope_value y0 =
     \<lparr>status = ''ok'', op = ''tangent_line'',
      payload = [(''slope'', PNum slope_value), (''point'', pair_val (x0, y0))], warnings = []\<rparr>"

definition definite_integral :: "real \<Rightarrow> real \<Rightarrow> real \<Rightarrow> computation_result" where
  "definite_integral start end_arg integral_value =
     \<lparr>status = ''ok'', op = ''definite_integral'',
      payload = [(''integral'', PNum integral_value)], warnings = []\<rparr>"

definition critical_points :: "(real \<times> real \<times> real) list \<Rightarrow> computation_result" where
  "critical_points roots =
     (let candidates =
            map (\<lambda>(root, y_value, double_prime).
                   PDict [(''x'', PNum root), (''y'', PNum y_value),
                          (''classification'',
                             PStr (if double_prime > 0 then ''min''
                                   else if double_prime < 0 then ''max'' else ''saddle''))]) roots
      in \<lparr>status = ''ok'', op = ''critical_points'',
           payload = [(''points'', PList candidates)], warnings = []\<rparr>)"

definition taylor_polynomial :: "int \<Rightarrow> real \<Rightarrow> string \<Rightarrow> computation_result" where
  "taylor_polynomial order about series_text =
     \<lparr>status = ''ok'', op = ''taylor_polynomial'',
      payload = [(''series'', PStr series_text)], warnings = []\<rparr>"

subsection \<open>The engine as a whole\<close>

text \<open>
  Every operation of \<^verbatim>\<open>geographer/core\<close> that returns a \<^verbatim>\<open>ComputationResult\<close>, with
  its arguments and, where the operation consults SymPy or NumPy's linear algebra, the
  library's answer. An
  exception raised inside the library ends the call without a result and is not part of
  these models, except for the calls of \<^verbatim>\<open>lines.py\<close> modelled above.
\<close>

datatype points_call =
    Call_distance point point
  | Call_midpoint point point
  | Call_section_point point point "real \<times> real" bool
  | Call_parametric_point point point real string

primrec run_points :: "points_call \<Rightarrow> exn + computation_result" where
  "run_points (Call_distance a b) = distance a b"
| "run_points (Call_midpoint a b) = Inr (midpoint a b)"
| "run_points (Call_section_point a b ratio external) = section_point a b ratio external"
| "run_points (Call_parametric_point a b t t_text) = Inr (parametric_point a b t t_text)"

datatype lines_call =
    Call_line_from_points point point
  | Call_intersection line line
  | Call_angle_between_lines line line
  | Call_distance_from_point line point
  | Call_foot_of_perpendicular line point
  | Call_angle_bisectors line line

primrec run_lines :: "lines_call \<Rightarrow> exn + computation_result" where
  "run_lines (Call_line_from_points p1 p2) = line_from_points p1 p2"
| "run_lines (Call_intersection l1 l2) = intersection l1 l2"
| "run_lines (Call_angle_between_lines l1 l2) = angle_between_lines l1 l2"
| "run_lines (Call_distance_from_point l p) = distance_from_point l p"
| "run_lines (Call_foot_of_perpendicular l p) = foot_of_perpendicular l p"
| "run_lines (Call_angle_bisectors l1 l2) = angle_bisectors l1 l2"

datatype circles_call =
    Call_circle_summary circle
  | Call_line_circle_intersection circle line "(real \<times> real) list"
  | Call_circle_circle_intersection circle circle "(real \<times> real) list"
  | Call_tangents_from_external_point circle point "(real \<times> real \<times> real) list"
  | Call_radical_axis circle circle "real \<times> real \<times> real"

primrec run_circles :: "circles_call \<Rightarrow> exn + computation_result" where
  "run_circles (Call_circle_summary c) = Inr (circle_summary c)"
| "run_circles (Call_line_circle_intersection c l points) = line_circle_intersection c l points"
| "run_circles (Call_circle_circle_intersection c1 c2 points) = Inr (circle_circle_intersection c1 c2 points)"
| "run_circles (Call_tangents_from_external_point c p tangent_lines) =
     tangents_from_external_point c p tangent_lines"
| "run_circles (Call_radical_axis c1 c2 coeffs) = radical_axis c1 c2 coeffs"

datatype triangles_call =
    Call_triangle_summary triangle_metrics real "real \<times> real" "real \<times> real" "real \<times> real" real real

primrec run_triangles :: "triangles_call \<Rightarrow> exn + computation_result" where
  "run_triangles (Call_triangle_summary t area_value cc ic oc cr ir) =
     Inr (triangle_summary t area_value cc ic oc cr ir)"

datatype conics_call =
    Call_parabola_y2_4ax real
  | Call_parabola_x2_4ay real
  | Call_ellipse_standard real real
  | Call_hyperbola_standard real real
  | Call_classify_general_quadratic real real real real real real
  | Call_line_conic_intersection line "string \<rightharpoonup> real" bool "(real \<times> real) list"

primrec run_conics :: "conics_call \<Rightarrow> exn + computation_result" where
  "run_conics (Call_parabola_y2_4ax a) = parabola_y2_4ax a"
| "run_conics (Call_parabola_x2_4ay a) = parabola_x2_4ay a"
| "run_conics (Call_ellipse_standard a b) = Inr (ellipse_standard a b)"
| "run_conics (Call_hyperbola_standard a b) = Inr (hyperbola_standard a b)"
| "run_conics (Call_classify_general_quadratic A B C D E F) = Inr (classify_general_quadratic A B C D E F)"
| "run_conics (Call_line_conic_intersection l coeffs found points) =
     Inr (line_conic_intersection l coeffs found points)"

datatype matrices_call =
    Call_matrix_addition matrix matrix
  | Call_matrix_multiplication matrix matrix
  | Call_matrix_determinant matrix real
  | Call_matrix_inverse matrix real matrix
  | Call_eigen_analysis matrix "(real \<times> nat \<times> real list) list"
  | Call_matrix_transform matrix string real

primrec run_matrices :: "matrices_call \<Rightarrow> exn + computation_result" where
  "run_matrices (Call_matrix_addition a b) = matrix_addition a b"
| "run_matrices (Call_matrix_multiplication a b) = matrix_multiplication a b"
| "run_matrices (Call_matrix_determinant m np_det) = matrix_determinant m np_det"
| "run_matrices (Call_matrix_inverse m np_det np_inv) = matrix_inverse m np_det np_inv"
| "run_matrices (Call_eigen_analysis m eigenpairs) = Inr (eigen_analysis m eigenpairs)"
| "run_matrices (Call_matrix_transform m shape_name np_det) = matrix_transform m shape_name np_det"

datatype locus_call =
    Call_perpendicular_bisector point point
  | Call_apollonius_circle point point "real \<times> real"
  | Call_locus_midpoints "point list"

primrec run_locus :: "locus_call \<Rightarrow> exn + computation_result" where
  "run_locus (Call_perpendicular_bisector a b) = perpendicular_bisector a b"
| "run_locus (Call_apollonius_circle a b ratio) = Inr (apollonius_circle a b ratio)"
| "run_locus (Call_locus_midpoints pts) = Inr (locus_midpoints pts)"

datatype transforms_call =
    Call_apply_translation "point list" real real
  | Call_apply_rotation "point list" real "point option"
  | Call_apply_scaling "point list" real real "point option"
  | Call_apply_reflection "point list" line "(real \<times> real) list"
  | Call_apply_affine matrix "point list"

primrec run_transforms :: "transforms_call \<Rightarrow> exn + computation_result" where
  "run_transforms (Call_apply_translation pts dx dy) = Inr (apply_translation pts dx dy)"
| "run_transforms (Call_apply_rotation pts angle pivot) = Inr (apply_rotation pts angle pivot)"
| "run_transforms (Call_apply_scaling pts sx sy pivot) = Inr (apply_scaling pts sx sy pivot)"
| "run_transforms (Call_apply_reflection pts l reflected) = apply_reflection pts l reflected"
| "run_transforms (Call_apply_affine m pts) = apply_affine m pts"

datatype trig_call =
    Call_plot_basic_trig string "real \<times> real" int
  | Call_transform_trig real real real real string "real \<times> real" int
  | Call_verify_identity "real list"
  | Call_solve_trig_equation "real list"

primrec run_trig :: "trig_call \<Rightarrow> exn + computation_result" where
  "run_trig (Call_plot_basic_trig func domain resolution) = plot_basic_trig func domain resolution"
| "run_trig (Call_transform_trig amplitude frequency phase vertical base domain resolution) =
     transform_trig amplitude frequency phase vertical base domain resolution"
| "run_trig (Call_verify_identity differences) = verify_identity differences"
| "run_trig (Call_solve_trig_equation numeric) = Inr (solve_trig_equation numeric)"

datatype calculus_call =
    Call_analyzer_plot "real \<times> real" int bool string
  | Call_derivative_at real real real
  | Call_definite_integral real real real
  | Call_critical_points "(real \<times> real \<times> real) list"
  | Call_taylor_polynomial int real string

primrec run_calculus :: "calculus_call \<Rightarrow> exn + computation_result" where
  "run_calculus (Call_analyzer_plot domain resolution show_derivative derivative_text) =
     analyzer_plot domain resolution show_derivative derivative_text"
| "run_calculus (Call_derivative_at x0 slope_value y0) = Inr (derivative_at x0 slope_value y0)"
| "run_calculus (Call_definite_integral start end_arg integral_value) =
     Inr (definite_integral start end_arg integral_value)"
| "run_calculus (Call_critical_points roots) = Inr (critical_points roots)"
| "run_calculus (Call_taylor_polynomial order about series_text) =
     Inr (taylor_polynomial order about series_text)"

datatype engine_call =
    In_points points_call
  | In_lines lines_call
  | In_circles circles_call
  | In_triangles triangles_call
  | In_conics conics_call
  | In_matrices matrices_call
  | In_locus locus_call
  | In_transforms transforms_call
  | In_trig trig_call
  | In_calculus calculus_call

primrec run :: "engine_call \<Rightarrow> exn + computation_result" where
  "run (In_points c) = run_points c"
| "run (In_lines c) = run_lines c"
| "run (In_circles c) = run_circles c"
| "run (In_triangles c) = run_triangles c"
| "run (In_conics c) = run_conics c"
| "run (In_matrices c) = run_matrices c"
| "run (In_locus c) = run_locus c"
| "run (In_transforms c) = run_transforms c"
| "run (In_trig c) = run_trig c"
| "run (In_calculus c) = run_calculus c"

text \<open>A payload whose only key is \<^verbatim>\<open>"message"\<close>, holding a string.\<close>

fun is_str :: "pyval \<Rightarrow> bool" where
  "is_str (PStr s) = True"
| "is_str v = False"

definition message_only :: "(string \<times> pyval) list \<Rightarrow> bool" where
  "message_only p = (map fst p = [''message''] \<and> list_all is_str (map snd p))"

section \<open>Properties\<close>

text \<open>
  The properties of \<^verbatim>\<open>distance\<close>, \<^verbatim>\<open>midpoint\<close> and \<^verbatim>\<open>from_points_f64\<close> are about
  binary64 values. The other properties are statements of the real-number model; the
  calls that end in an exception are evaluated at small integers, where the operands
  that decide the exception are exact in binary64 as well.
\<close>

lemma exn_bind_Inr: "exn_bind r f = Inr y \<Longrightarrow> \<exists>v. r = Inr v \<and> f v = Inr y"
  by (cases r) (simp_all add: exn_bind_def)

subsection \<open>Binary64 arithmetic\<close>

lemma floor_log2:
  assumes "2 powi n \<le> x" and "x < 2 powi (n + 1)"
  shows "\<lfloor>log 2 x\<rfloor> = n"
proof -
  have two: "(1::real) < 2" by simp
  have "(0::real) < 2 powi n" by simp
  then have pos: "0 < x" using assms(1) by linarith
  have lo: "(2::real) powr real_of_int n = 2 powi n"
    by (rule powr_real_of_int') simp_all
  have hi: "(2::real) powr real_of_int (n + 1) = 2 powi (n + 1)"
    by (rule powr_real_of_int') simp_all
  have "real_of_int n \<le> log 2 x"
    unfolding le_log_iff [OF two pos] lo by (rule assms(1))
  moreover have "log 2 x < real_of_int (n + 1)"
    unfolding log_less_iff [OF two pos] hi by (rule assms(2))
  ultimately show ?thesis
    unfolding floor_eq_iff by simp
qed

lemma log2_bounds:
  assumes "x \<noteq> 0" and "e = \<lfloor>log 2 \<bar>x\<bar>\<rfloor>"
  shows "2 powi e \<le> \<bar>x\<bar>" and "\<bar>x\<bar> < 2 powi (e + 1)"
proof -
  have two: "(1::real) < 2" by simp
  have pos: "0 < \<bar>x\<bar>" using assms(1) by simp
  have lo: "(2::real) powr real_of_int e = 2 powi e"
    by (rule powr_real_of_int') simp_all
  have hi: "(2::real) powr real_of_int (e + 1) = 2 powi (e + 1)"
    by (rule powr_real_of_int') simp_all
  have "real_of_int e \<le> log 2 \<bar>x\<bar>" by (simp add: assms(2))
  then show "2 powi e \<le> \<bar>x\<bar>"
    unfolding le_log_iff [OF two pos] lo .
  have "log 2 \<bar>x\<bar> < real_of_int (e + 1)" by (simp add: assms(2))
  then show "\<bar>x\<bar> < 2 powi (e + 1)"
    unfolding log_less_iff [OF two pos] hi .
qed

lemma pow2_succ: "(2::real) powi (n + 1) = 2 * 2 powi n"
  by (simp add: power_int_add)

lemma round_even_of_int [simp]: "round_even (of_int k) = k"
  by (simp add: round_even_def)

lemma round_even_numeral [simp]: "round_even (numeral k) = numeral k"
  using round_even_of_int [of "numeral k"] by simp

lemma round_even_neg_numeral [simp]: "round_even (- numeral k) = - numeral k"
  using round_even_of_int [of "- numeral k"] by simp

text \<open>The rounding of a number whose binade is known.\<close>

lemma fl_between:
  assumes "2 powi n \<le> \<bar>x\<bar>" and "\<bar>x\<bar> < 2 powi (n + 1)"
  shows "fl x = of_int (round_even (x / 2 powi max (n - 52) (- 1074))) * 2 powi max (n - 52) (- 1074)"
proof -
  have "(0::real) < 2 powi n" by simp
  then have "0 < \<bar>x\<bar>" using assms(1) by linarith
  then have "x \<noteq> 0" by simp
  moreover have "expo x = max (n - 52) (- 1074)"
    using floor_log2 [OF assms] by (simp add: expo_def)
  ultimately show ?thesis by (simp add: fl_def)
qed

lemma to_f64_double: "is_double v \<Longrightarrow> to_f64 v = Fin v"
  by (auto simp: is_double_def to_f64_def Let_def)

lemma to_f64_zero [simp]: "to_f64 0 = Fin 0"
  by (simp add: to_f64_def fl_def max64_def)

lemma is_double_zero: "is_double 0"
  by (simp add: is_double_def fl_def max64_def)

text \<open>An integer below 2^53 in absolute value is a double.\<close>

lemma is_double_int:
  assumes "\<bar>k\<bar> < 2 ^ 53"
  shows "is_double (of_int k)"
proof (cases "k = 0")
  case True
  then show ?thesis by (simp add: is_double_zero)
next
  case False
  define x :: real where "x = of_int k"
  define e where "e = \<lfloor>log 2 \<bar>x\<bar>\<rfloor>"
  have x0: "x \<noteq> 0" using False by (simp add: x_def)
  have lo: "2 powi e \<le> \<bar>x\<bar>" and hi: "\<bar>x\<bar> < 2 powi (e + 1)"
    using log2_bounds [OF x0 e_def] by simp_all
  have "1 \<le> \<bar>k\<bar>" using False by simp
  then have "real_of_int 1 \<le> real_of_int \<bar>k\<bar>" by (rule of_int_le_iff [THEN iffD2])
  then have one: "1 \<le> \<bar>x\<bar>" by (simp add: x_def)
  have "real_of_int \<bar>k\<bar> < real_of_int (2 ^ 53)"
    using assms by (rule of_int_less_iff [THEN iffD2])
  then have big: "\<bar>x\<bar> < 2 ^ 53" by (simp add: x_def)
  have e0: "0 \<le> e"
  proof (rule ccontr)
    assume "\<not> 0 \<le> e"
    then have "e + 1 \<le> 0" by simp
    then have "(2::real) powi (e + 1) \<le> 2 powi 0"
      by (intro power_int_increasing) simp_all
    then show False using one hi by simp
  qed
  have "(2::real) powi e < 2 powi 53" using lo big by simp
  then have e53: "e < 53" by (rule power_int_le_imp_less_exp [rotated]) simp_all
  have ex: "expo x = e - 52"
    using e0 by (simp add: expo_def e_def)
  define j where "j = nat (52 - e)"
  have pw: "(2::real) powi (e - 52) = 1 / 2 ^ j"
    using e53 by (simp add: j_def power_int_def divide_simps)
  have q: "x / 2 powi (e - 52) = of_int (k * 2 ^ j)"
    unfolding pw by (simp add: x_def)
  have "fl x = of_int (round_even (of_int (k * 2 ^ j))) * 2 powi (e - 52)"
    using x0 by (simp only: fl_def ex q if_False)
  also have "\<dots> = of_int (k * 2 ^ j) * (1 / 2 ^ j)"
    by (simp only: round_even_of_int pw)
  also have "\<dots> = x"
    by (simp add: x_def)
  finally have "fl x = x" .
  moreover have "\<bar>x\<bar> \<le> max64"
    using big by (simp add: max64_def)
  ultimately show ?thesis
    by (simp add: is_double_def x_def)
qed

lemma is_double_numeral: "numeral n < (2::int) ^ 53 \<Longrightarrow> is_double (numeral n)"
  using is_double_int [of "numeral n"] by simp

lemma is_double_neg_numeral: "numeral n < (2::int) ^ 53 \<Longrightarrow> is_double (- numeral n)"
  using is_double_int [of "- numeral n"] by simp

lemma is_double_one: "is_double 1"
  using is_double_int [of 1] by simp

text \<open>Doubling a double below 2^1023 in absolute value is exact and does not overflow.\<close>

lemma double_twice:
  assumes "is_double x" and "\<bar>x\<bar> < 2 ^ 1023"
  shows "is_double (x + x)"
proof (cases "x = 0")
  case True
  then show ?thesis by (simp add: is_double_zero)
next
  case False
  define e where "e = \<lfloor>log 2 \<bar>x\<bar>\<rfloor>"
  have lo: "2 powi e \<le> \<bar>x\<bar>" and hi: "\<bar>x\<bar> < 2 powi (e + 1)"
    using log2_bounds [OF False e_def] by simp_all
  have "(2::real) powi e < 2 powi 1023"
    using lo assms(2) by simp
  then have "e < 1023"
    by (rule power_int_le_imp_less_exp [rotated]) simp_all
  then have e_le: "e \<le> 1022" by simp
  define d where "d = max (e - 52) (- 1074)"
  have ex: "expo x = d" by (simp add: expo_def e_def d_def)
  define u :: real where "u = 2 powi d"
  define k where "k = round_even (x / u)"
  have upos: "0 < u" by (simp add: u_def)
  have fixed: "fl x = x" using assms(1) by (simp add: is_double_def)
  have xk: "x = of_int k * u"
    using fixed False by (simp add: fl_def ex k_def u_def)
  have p1: "(2::real) powi (e + 1) = 2 * 2 powi e"
    by (rule pow2_succ)
  have p2: "(2::real) powi (e + 1 + 1) = 2 * (2 * 2 powi e)"
    by (simp only: pow2_succ)
  have ax: "\<bar>x + x\<bar> = 2 * \<bar>x\<bar>" by simp
  have lo2: "2 powi (e + 1) \<le> \<bar>x + x\<bar>"
    unfolding p1 ax using lo by linarith
  have hi2: "\<bar>x + x\<bar> < 2 powi (e + 1 + 1)"
    unfolding p2 ax using hi unfolding p1 by linarith
  have fl2: "fl (x + x) =
      of_int (round_even ((x + x) / 2 powi max (e + 1 - 52) (- 1074))) * 2 powi max (e + 1 - 52) (- 1074)"
    by (rule fl_between [OF lo2 hi2])
  show ?thesis
  proof (cases "- 1074 \<le> e - 52")
    case True
    then have d: "d = e - 52" and d2: "max (e + 1 - 52) (- 1074) = d + 1"
      by (simp_all add: d_def)
    have u2: "2 powi (d + 1) = 2 * u"
      unfolding u_def by (rule pow2_succ)
    have q: "(x + x) / (2 * u) = of_int k"
      using xk upos by simp
    have "fl (x + x) = of_int (round_even (of_int k)) * (2 * u)"
      using fl2 unfolding d2 u2 q .
    also have "\<dots> = of_int k * (2 * u)"
      by (simp only: round_even_of_int)
    also have "\<dots> = x + x"
      using xk by simp
    finally have f: "fl (x + x) = x + x" .
    have e1: "(2::real) powi (e + 1) = 2 ^ 53 * u"
      unfolding u_def d by (simp add: power_int_diff pow2_succ)
    have "\<bar>x\<bar> = \<bar>real_of_int k\<bar> * u"
      using xk upos by (simp add: abs_mult)
    then have "\<bar>real_of_int k\<bar> * u < 2 ^ 53 * u"
      using hi e1 by simp
    then have "\<bar>real_of_int k\<bar> < 2 ^ 53"
      using upos by simp
    then have "real_of_int \<bar>k\<bar> < real_of_int (2 ^ 53)" by simp
    then have "\<bar>k\<bar> < 2 ^ 53" by (rule of_int_less_iff [THEN iffD1])
    then have "\<bar>k\<bar> \<le> 2 ^ 53 - 1" by simp
    then have "real_of_int \<bar>k\<bar> \<le> real_of_int (2 ^ 53 - 1)"
      by (rule of_int_le_iff [THEN iffD2])
    then have kb: "\<bar>real_of_int k\<bar> \<le> 2 ^ 53 - 1" by simp
    have "(2::real) powi (d + 1) \<le> 2 powi 971"
      using e_le d by (intro power_int_increasing) simp_all
    then have pb: "2 * u \<le> 2 ^ 971" unfolding u2 by simp
    have "\<bar>x + x\<bar> = \<bar>real_of_int k\<bar> * (2 * u)"
      using xk upos by (simp add: abs_mult)
    also have "\<dots> \<le> (2 ^ 53 - 1) * 2 ^ 971"
      using upos by (intro mult_mono kb pb) simp_all
    finally show ?thesis using f by (simp add: is_double_def max64_def)
  next
    case False
    then have d: "d = - 1074" and d2: "max (e + 1 - 52) (- 1074) = - 1074"
      by (simp_all add: d_def)
    have ud: "2 powi max (e + 1 - 52) (- 1074) = u"
      by (simp only: d2 u_def d)
    have q: "(x + x) / u = of_int (2 * k)"
      using xk upos by simp
    have "fl (x + x) = of_int (round_even (of_int (2 * k))) * u"
      using fl2 unfolding ud q .
    also have "\<dots> = of_int (2 * k) * u"
      by (simp only: round_even_of_int)
    also have "\<dots> = x + x"
      using xk by simp
    finally have f: "fl (x + x) = x + x" .
    have "(2::real) powi (e + 1 + 1) \<le> 2 powi 0"
      using False by (intro power_int_increasing) simp_all
    then have "\<bar>x + x\<bar> \<le> 1" using hi2 by simp
    then show ?thesis using f by (simp add: is_double_def max64_def)
  qed
qed

subsection \<open>Points\<close>

text \<open>
  C1, as the code has it. \<^verbatim>\<open>section_point(Point(0,0), Point(4,0), ratio=(1,3))\<close> with
  \<^verbatim>\<open>external=False\<close> returns status \<^verbatim>\<open>"ok"\<close> and the payload point (3, 0) labelled
  \<^verbatim>\<open>P\<close>: the code weights A by m and B by n, so the point divides AB in the ratio
  n:m measured from A. The repository's own test expects the abscissa 3.
\<close>

theorem section_point_internal_1_3:
  "section_point (Point 0 0 None) (Point 4 0 None) (1, 3) False =
     Inr \<lparr>status = ''ok'', op = ''section_point'',
          payload = [(''point'', PDict [(''x'', PNum 3), (''y'', PNum 0), (''label'', PStr ''P'')])],
          warnings = []\<rparr>"
  by (simp add: section_point_def Point_def point_payload_def)

text \<open>
  C1 as the spec states it fails: the call does not return status \<^verbatim>\<open>"ok"\<close> together
  with a payload point of coordinates (1, 0).
\<close>

theorem section_point_internal_1_3_counterexample:
  "\<not> (status_of (section_point (Point 0 0 None) (Point 4 0 None) (1, 3) False) = Some ''ok'' \<and>
      point_coords (payload_of (section_point (Point 0 0 None) (Point 4 0 None) (1, 3) False)) ''point''
        = (Some (PNum 1), Some (PNum 0)))"
  by (simp add: section_point_def Point_def point_payload_def status_of_def payload_of_def
      point_coords_def dict_get_def)

text \<open>
  C6. \<^verbatim>\<open>section_point\<close> with \<^verbatim>\<open>external=True\<close> and a ratio (m, m) has no guard on
  the divisor m - n: for all points and every m the call ends in an uncaught
  \<^verbatim>\<open>ZeroDivisionError\<close>, and no result with status \<^verbatim>\<open>"error"\<close> is returned. One such
  call is \<^verbatim>\<open>section_point(Point(0,0), Point(4,0), (1,1), external=True)\<close>.
\<close>

theorem section_point_external_equal_ratio_raises:
  "section_point point_a point_b (m, m) True = Inl ZeroDivisionError"
  by (simp add: section_point_def)

text \<open>\<^verbatim>\<open>distance(p, p)\<close> is 0 with status \<^verbatim>\<open>"ok"\<close>, for every point with finite coordinates.\<close>

lemma distance_same:
  "distance p p =
     Inr \<lparr>status = ''ok'', op = ''distance'', payload = [(''distance'', PFloat (Fin 0))],
          warnings = []\<rparr>"
  by (simp add: distance_def as_tuple_def exn_bind_def Let_def)

text \<open>
  C10, as the code has it. \<^verbatim>\<open>distance\<close> and \<^verbatim>\<open>midpoint\<close> accept two equal points.
  For every point p whose coordinates are doubles of absolute value below 2^1023,
  \<^verbatim>\<open>distance(p, p)\<close> has status \<^verbatim>\<open>"ok"\<close> and payload distance 0, and
  \<^verbatim>\<open>midpoint(p, p)\<close> has status \<^verbatim>\<open>"ok"\<close> and a payload midpoint with the coordinates
  of p (and the label \<^verbatim>\<open>M\<close>). The bound is what keeps the sum x + x of the midpoint
  from overflowing.
\<close>

theorem distance_midpoint_same_point:
  assumes "is_double (pt_x p)" and "is_double (pt_y p)"
    and "\<bar>pt_x p\<bar> < 2 ^ 1023" and "\<bar>pt_y p\<bar> < 2 ^ 1023"
  shows "distance p p =
     Inr \<lparr>status = ''ok'', op = ''distance'', payload = [(''distance'', PFloat (Fin 0))],
          warnings = []\<rparr> \<and>
   midpoint p p =
     \<lparr>status = ''ok'', op = ''midpoint'',
      payload = [(''midpoint'',
                  PDict [(''x'', PFloat (Fin (pt_x p))), (''y'', PFloat (Fin (pt_y p))),
                         (''label'', PStr ''M'')])],
      warnings = []\<rparr>"
proof -
  have sx: "to_f64 (pt_x p + pt_x p) = Fin (pt_x p + pt_x p)"
    by (rule to_f64_double [OF double_twice [OF assms(1,3)]])
  have sy: "to_f64 (pt_y p + pt_y p) = Fin (pt_y p + pt_y p)"
    by (rule to_f64_double [OF double_twice [OF assms(2,4)]])
  have hx: "to_f64 (pt_x p) = Fin (pt_x p)" and hy: "to_f64 (pt_y p) = Fin (pt_y p)"
    using assms(1,2) by (simp_all add: to_f64_double)
  have mx: "fdiv2 (to_f64 (pt_x p + pt_x p)) = Fin (pt_x p)"
    by (simp only: sx fdiv2.simps) (simp add: hx)
  have my: "fdiv2 (to_f64 (pt_y p + pt_y p)) = Fin (pt_y p)"
    by (simp only: sy fdiv2.simps) (simp add: hy)
  show ?thesis
    using mx my by (simp add: distance_same midpoint_def point_payload64_def)
qed

theorem distance_midpoint_same_point_witness:
  "is_double (pt_x (Point 1 2 None)) \<and> is_double (pt_y (Point 1 2 None)) \<and>
   \<bar>pt_x (Point 1 2 None)\<bar> < 2 ^ 1023 \<and> \<bar>pt_y (Point 1 2 None)\<bar> < 2 ^ 1023 \<and>
   distance (Point 1 2 None) (Point 1 2 None) =
     Inr \<lparr>status = ''ok'', op = ''distance'', payload = [(''distance'', PFloat (Fin 0))],
          warnings = []\<rparr> \<and>
   midpoint (Point 1 2 None) (Point 1 2 None) =
     \<lparr>status = ''ok'', op = ''midpoint'',
      payload = [(''midpoint'',
                  PDict [(''x'', PFloat (Fin 1)), (''y'', PFloat (Fin 2)), (''label'', PStr ''M'')])],
      warnings = []\<rparr>"
proof -
  have a: "is_double (pt_x (Point 1 2 None))" and b: "is_double (pt_y (Point 1 2 None))"
    by (simp_all add: Point_def is_double_one is_double_numeral)
  have c: "\<bar>pt_x (Point 1 2 None)\<bar> < 2 ^ 1023" and d: "\<bar>pt_y (Point 1 2 None)\<bar> < 2 ^ 1023"
    by (simp_all add: Point_def)
  show ?thesis
    using a b c d distance_midpoint_same_point [OF a b c d] by (simp add: Point_def)
qed

text \<open>
  C10 as the spec states it fails for a large coordinate: 2^1023 is a double, the sum
  2^1023 + 2^1023 overflows to infinity, and the midpoint of the point (2^1023, 0) with
  itself has the abscissa infinity, not 2^1023.
\<close>

lemma is_double_2p1023: "is_double (2 ^ 1023)"
  using fl_between [of 1023 "2 ^ 1023"] by (simp add: is_double_def max64_def)

lemma overflow_2p1024: "to_f64 (2 ^ 1023 + 2 ^ 1023) = PInf"
  using fl_between [of 1024 "2 ^ 1023 + 2 ^ 1023"] by (simp add: to_f64_def max64_def)

theorem midpoint_same_point_overflow_counterexample:
  "is_double (2 ^ 1023) \<and> is_double 0 \<and>
   midpoint (Point (2 ^ 1023) 0 None) (Point (2 ^ 1023) 0 None) =
     \<lparr>status = ''ok'', op = ''midpoint'',
      payload = [(''midpoint'',
                  PDict [(''x'', PFloat PInf), (''y'', PFloat (Fin 0)), (''label'', PStr ''M'')])],
      warnings = []\<rparr>"
  using overflow_2p1024 is_double_2p1023 is_double_zero
  by (simp add: midpoint_def Point_def point_payload64_def)

subsection \<open>Lines\<close>




text \<open>
  C9 as the spec states it fails where a coefficient is rounded. The points
  (2^53, 2^53 + 2) and (2^53 + 2, 2^53 + 2) have double coordinates and are distinct. The
  product x2 y1 is rounded from 2^106 + 2^55 + 4 to 2^106 + 2^55, and the line returned
  is 0 x + 2 y - 2^54 = 0. At both points A x + B y + C is 4, not 0, in exact arithmetic
  and also when it is evaluated in doubles.
\<close>

lemma is_double_2p53: "is_double (2 ^ 53)"
  using fl_between [of 53 "2 ^ 53"] by (simp add: is_double_def max64_def)

lemma is_double_2p53_2: "is_double (2 ^ 53 + 2)"
  using fl_between [of 53 "2 ^ 53 + 2"] by (simp add: is_double_def max64_def)

lemma product_x1_y2: "to_f64 (2 ^ 53 * (2 ^ 53 + 2)) = Fin (2 ^ 106 + 2 ^ 54)"
  using fl_between [of 106 "2 ^ 53 * (2 ^ 53 + 2)"] by (simp add: to_f64_def max64_def)

lemma product_x2_y1: "to_f64 ((2 ^ 53 + 2) * (2 ^ 53 + 2)) = Fin (2 ^ 106 + 2 ^ 55)"
  using fl_between [of 106 "(2 ^ 53 + 2) * (2 ^ 53 + 2)"]
  by (simp add: to_f64_def max64_def round_even_def)

lemma difference_of_products:
  "to_f64 (2 ^ 106 + 2 ^ 54 - (2 ^ 106 + 2 ^ 55)) = Fin (- (2 ^ 54))"
  using fl_between [of 54 "2 ^ 106 + 2 ^ 54 - (2 ^ 106 + 2 ^ 55)"]
  by (simp add: to_f64_def max64_def)

lemma to_f64_two: "to_f64 2 = Fin 2"
  by (rule to_f64_double) (simp add: is_double_numeral)

lemma to_f64_four: "to_f64 4 = Fin 4"
  by (rule to_f64_double) (simp add: is_double_numeral)

lemma product_B_y: "to_f64 (2 * (2 ^ 53 + 2)) = Fin (2 ^ 54 + 4)"
  using fl_between [of 54 "2 * (2 ^ 53 + 2)"] by (simp add: to_f64_def max64_def)

lemma residual_in_doubles:
  "fadd (fadd (to_f64 (0 * 2 ^ 53)) (to_f64 (2 * (2 ^ 53 + 2)))) (Fin (- (2 ^ 54))) = Fin 4"
proof -
  have "fadd (to_f64 (0 * 2 ^ 53)) (to_f64 (2 * (2 ^ 53 + 2))) = Fin (2 ^ 54 + 4)"
    using product_B_y by (simp add: product_B_y)
  then show ?thesis
    using to_f64_four by simp
qed


subsection \<open>Intersection of two lines\<close>

text \<open>The call of the repository's test: x - y = 0 and y - 2 = 0 meet in (2, 2).\<close>

lemma intersection_repository_test:
  "intersection (Line 1 (- 1) 0 None) (Line 0 1 (- 2) None) =
     Inr \<lparr>status = ''ok'', op = ''intersection'',
          payload = [(''point'', PTuple [PNum 2, PNum 2])], warnings = []\<rparr>"
  by (simp add: intersection_def as_sympy_def sym_line_of_equation_def sym_intersection_def
      cross_def vsub_def Line_def EPS_def exn_bind_def sample_points_def Point_def pair_val_def
      as_tuple_def)

text \<open>Two non-vertical lines of different slopes give a result.\<close>

lemma intersection_crossing:
  assumes "slope l1 = Some m1" and "slope l2 = Some m2" and "m1 \<noteq> m2"
  shows "\<exists>r. intersection l1 l2 = Inr r"
proof -
  have pos: "0 < EPS" by (simp add: EPS_def)
  have n1: "\<not> \<bar>line_B l1\<bar> \<le> EPS" and n2: "\<not> \<bar>line_B l2\<bar> \<le> EPS"
    using assms(1,2) by (auto simp: slope_def split: if_splits)
  have b1: "line_B l1 \<noteq> 0" and b2: "line_B l2 \<noteq> 0"
    using n1 n2 pos by auto
  have m1: "m1 = - line_A l1 / line_B l1" and m2: "m2 = - line_A l2 / line_B l2"
    using assms(1,2) by (auto simp: slope_def split: if_splits)
  have ne: "line_A l2 / line_B l2 \<noteq> line_A l1 / line_B l1"
    using assms(3) m1 m2 by auto
  show ?thesis
    using n1 n2 b1 b2 ne
    by (simp add: intersection_def as_sympy_def sym_line_of_equation_def sym_intersection_def
      cross_def vsub_def exn_bind_def sample_points_def Let_def)
qed

text \<open>
  A vertical line does not get as far as the intersection: \<^verbatim>\<open>as_sympy\<close> builds it with
  \<^verbatim>\<open>slope=None\<close>, which SymPy's constructor refuses.
\<close>

lemma intersection_vertical_line_raises:
  "intersection (Line 1 0 0 None) (Line 0 1 0 None) =
     Inl (ValueError ''A 2nd Point or keyword slope must be used.'')"
  by (simp add: intersection_def as_sympy_def sym_line_slope_none_def Line_def EPS_def
      exn_bind_def)

text \<open>
  C2. For two coincident lines SymPy answers with the line itself, not with an empty
  list; the code then reads the attribute \<^verbatim>\<open>x\<close> of that line and the call ends in an
  uncaught \<^verbatim>\<open>AttributeError\<close> instead of the warning. Evaluated at x - y = 0 taken
  twice, \<^verbatim>\<open>intersection(Line.from_general(1,-1,0), Line.from_general(1,-1,0))\<close>.
\<close>

theorem intersection_coincident_lines_raises:
  "intersection (Line 1 (- 1) 0 None) (Line 1 (- 1) 0 None) = Inl (AttributeError ''x'')"
  by (simp add: intersection_def as_sympy_def sym_line_of_equation_def sym_intersection_def
      cross_def vsub_def Line_def EPS_def exn_bind_def)

subsection \<open>Angle between two lines\<close>

text \<open>Both lines vertical: 0 degrees. Exactly one vertical: 90 degrees.\<close>

lemma angle_both_vertical:
  assumes "valid_line l1" and "valid_line l2" and "slope l1 = None" and "slope l2 = None"
  shows "angle_between_lines l1 l2 =
     Inr \<lparr>status = ''ok'', op = ''angle_between_lines'',
          payload = [(''angle_degrees'', PNum 0)], warnings = []\<rparr>"
proof -
  have pos: "0 < EPS" by (simp add: EPS_def)
  have v1: "\<bar>line_B l1\<bar> \<le> EPS" and v2: "\<bar>line_B l2\<bar> \<le> EPS"
    using assms(3,4) by (auto simp: slope_def split: if_splits)
  have a1: "line_A l1 \<noteq> 0" and a2: "line_A l2 \<noteq> 0"
    using assms(1,2) v1 v2 pos by (auto simp: valid_line_def)
  show ?thesis
    using assms(3,4) v1 v2 a1 a2
    by (simp add: angle_between_lines_def exn_bind_def sample_points_def Let_def)
qed

lemma angle_one_vertical:
  assumes "valid_line l1" and "valid_line l2"
    and "(slope l1 = None) \<noteq> (slope l2 = None)"
  shows "angle_between_lines l1 l2 =
     Inr \<lparr>status = ''ok'', op = ''angle_between_lines'',
          payload = [(''angle_degrees'', PNum 90)], warnings = []\<rparr>"
proof -
  have pos: "0 < EPS" by (simp add: EPS_def)
  have s1: "\<bar>line_B l1\<bar> \<le> EPS \<Longrightarrow> line_A l1 \<noteq> 0"
    using assms(1) pos by (auto simp: valid_line_def)
  have s2: "\<bar>line_B l2\<bar> \<le> EPS \<Longrightarrow> line_A l2 \<noteq> 0"
    using assms(2) pos by (auto simp: valid_line_def)
  show ?thesis
    using assms(3) s1 s2
    by (auto simp: angle_between_lines_def exn_bind_def sample_points_def Let_def slope_def
        split: if_splits)
qed

text \<open>
  Two non-vertical lines with 1 + m1 m2 \<noteq> 0: the angle is the arc tangent of
  |(m2 - m1) / (1 + m1 m2)|, in degrees.
\<close>

lemma angle_between_oblique:
  assumes "slope l1 = Some m1" and "slope l2 = Some m2" and "1 + m1 * m2 \<noteq> 0"
  shows "angle_between_lines l1 l2 =
     Inr \<lparr>status = ''ok'', op = ''angle_between_lines'',
          payload = [(''angle_degrees'', PNum (arctan \<bar>(m2 - m1) / (1 + m1 * m2)\<bar> * 180 / pi))],
          warnings = []\<rparr>"
proof -
  have n1: "\<not> \<bar>line_B l1\<bar> \<le> EPS" and n2: "\<not> \<bar>line_B l2\<bar> \<le> EPS"
    using assms(1,2) by (auto simp: slope_def split: if_splits)
  have sp: "\<exists>e1. sample_points l1 = Inr e1" "\<exists>e2. sample_points l2 = Inr e2"
    using n1 n2 by (simp_all add: sample_points_def Let_def)
  define angle where "angle = degrees (atan2 \<bar>(m2 - m1) / (1 + m1 * m2)\<bar> 1)"
  have angle_eq: "angle = arctan \<bar>(m2 - m1) / (1 + m1 * m2)\<bar> * 180 / pi"
    by (simp add: angle_def degrees_def atan2_def del: abs_divide)
  have vertex: "\<exists>v. (if angle \<noteq> 0 \<and> angle \<noteq> 90
        then exn_bind (intersection l1 l2) (\<lambda>r. Inr (dict_get (payload r) ''point''))
        else Inr None) = Inr v"
  proof (cases "angle \<noteq> 0 \<and> angle \<noteq> 90")
    case True
    then have "m1 \<noteq> m2" by (auto simp: angle_eq)
    from intersection_crossing [OF assms(1,2) this] obtain r where "intersection l1 l2 = Inr r" ..
    then show ?thesis using True by (simp add: exn_bind_def)
  next
    case False
    then show ?thesis by auto
  qed
  from sp vertex obtain e1 e2 v where
    "sample_points l1 = Inr e1" "sample_points l2 = Inr e2"
    "(if angle \<noteq> 0 \<and> angle \<noteq> 90
        then exn_bind (intersection l1 l2) (\<lambda>r. Inr (dict_get (payload r) ''point''))
        else Inr None) = Inr v" by blast
  then show ?thesis
    using assms
    unfolding angle_between_lines_def
    by (simp add: exn_bind_def Let_def angle_def [symmetric] del: abs_divide) (simp add: angle_eq)
qed

text \<open>Two non-vertical lines with 1 + m1 m2 = 0: the division raises.\<close>

lemma angle_perpendicular_raises:
  assumes "slope l1 = Some m1" and "slope l2 = Some m2" and "1 + m1 * m2 = 0"
  shows "angle_between_lines l1 l2 = Inl ZeroDivisionError"
  using assms by (simp add: angle_between_lines_def exn_bind_def)

text \<open>
  C5. For two non-vertical lines with 1 + m1 m2 = 0 the quotient
  (m2 - m1) / (1 + m1 m2) is taken with a zero divisor and the call ends in an uncaught
  \<^verbatim>\<open>ZeroDivisionError\<close>; no angle is returned. Evaluated at x - y = 0 and x + y = 0,
  \<^verbatim>\<open>angle_between_lines(Line.from_general(1,-1,0), Line.from_general(1,1,0))\<close>.
\<close>

theorem angle_between_perpendicular_lines_raises:
  "angle_between_lines (Line 1 (- 1) 0 None) (Line 1 1 0 None) = Inl ZeroDivisionError"
  by (simp add: angle_between_lines_def slope_def Line_def EPS_def exn_bind_def)

subsection \<open>Inverse of a matrix\<close>

text \<open>
  The guard of \<^verbatim>\<open>matrix_inverse\<close> is on the value that \<^verbatim>\<open>np.linalg.det\<close> returns, and
  it is strict: a square matrix gets the warning with the tag \<^verbatim>\<open>singular_matrix\<close> when
  that value is below 1e-9 in absolute value, and status \<^verbatim>\<open>"ok"\<close> with NumPy's inverse
  otherwise. How that value relates to the determinant of the matrix is a matter of
  NumPy's floating-point factorisation and is not part of this model.
\<close>

lemma matrix_inverse_guard:
  assumes "square_matrix m"
  shows "matrix_inverse m np_det np_inv =
           (if \<bar>np_det\<bar> < EPS then
              Inr \<lparr>status = ''warning'', op = ''matrix_inverse'',
                   payload = [(''message'', PStr ''Matrix is nearly singular'')],
                   warnings = [''singular_matrix'']\<rparr>
            else
              Inr \<lparr>status = ''ok'', op = ''matrix_inverse'',
                   payload = [(''inverse'', mat_val np_inv), (''determinant'', PNum np_det)],
                   warnings = []\<rparr>)"
proof -
  obtain r rs where m: "m = r # rs"
    using assms by (cases m) (auto simp: square_matrix_def)
  have rows: "list_all (\<lambda>q. length q = length r) rs" and len: "length r = Suc (length rs)"
    using assms unfolding m square_matrix_def by (auto simp: list_all_iff)
  have ens: "ensure_matrix m = Inr m"
    using rows by (simp add: ensure_matrix_def m)
  have sq: "fst (shape m) = snd (shape m)"
    using len by (simp add: shape_def m)
  show ?thesis
    using sq by (simp add: matrix_inverse_def ens exn_bind_def Let_def)
qed

subsection \<open>The standard ellipse\<close>

text \<open>
  In the real-number model, for positive semi-axes the eccentricity is the square root
  of |a * a - b * b| over the larger semi-axis, and the two foci are (c, 0) and (-c, 0)
  with c that square root, whichever axis is the longer.
\<close>

lemma ellipse_standard_positive:
  assumes "0 < a" and "0 < b"
  shows "ellipse_standard a b =
     \<lparr>status = ''ok'', op = ''ellipse_standard'',
      payload =
        [(''semi_major'', PNum (max a b)),
         (''semi_minor'', PNum (min a b)),
         (''foci'', PList [PTuple [PNum (sqrt \<bar>a\<^sup>2 - b\<^sup>2\<bar>), PNum 0],
                           PTuple [PNum (- sqrt \<bar>a\<^sup>2 - b\<^sup>2\<bar>), PNum 0]]),
         (''eccentricity'', PNum (sqrt \<bar>a\<^sup>2 - b\<^sup>2\<bar> / max a b)),
         (''parametric'', PDict [(''x'', PStr ''a cos t''), (''y'', PStr ''b sin t'')])],
      warnings = []\<rparr>"
  using assms by (simp add: ellipse_standard_def pair_val_def Let_def)

lemma ellipse_standard_3_2:
  "dict_get (payload (ellipse_standard 3 2)) ''eccentricity'' = Some (PNum (sqrt 5 / 3)) \<and>
   dict_get (payload (ellipse_standard 3 2)) ''foci'' =
     Some (PList [PTuple [PNum (sqrt 5), PNum 0], PTuple [PNum (- sqrt 5), PNum 0]])"
  by (simp add: ellipse_standard_def pair_val_def Let_def dict_get_def)

text \<open>
  C4. \<^verbatim>\<open>ellipse_standard\<close> takes the larger semi-axis for \<^verbatim>\<open>semi_major\<close> and for the
  eccentricity, and puts the foci at (c, 0) and (-c, 0) whatever the axes are. Evaluated
  at a = 2, b = 3, where the major axis is the y-axis: the foci returned are
  (sqrt 5, 0) and (-sqrt 5, 0), on the x-axis.
\<close>

theorem ellipse_standard_2_3_foci_on_x_axis:
  "ellipse_standard 2 3 =
     \<lparr>status = ''ok'', op = ''ellipse_standard'',
      payload =
        [(''semi_major'', PNum 3),
         (''semi_minor'', PNum 2),
         (''foci'', PList [PTuple [PNum (sqrt 5), PNum 0], PTuple [PNum (- sqrt 5), PNum 0]]),
         (''eccentricity'', PNum (sqrt 5 / 3)),
         (''parametric'', PDict [(''x'', PStr ''a cos t''), (''y'', PStr ''b sin t'')])],
      warnings = []\<rparr>"
  by (simp add: ellipse_standard_def pair_val_def Let_def)

subsection \<open>Error results carry a message only\<close>

lemma points_error:
  "run_points c = Inr r \<Longrightarrow> status r = ''error'' \<Longrightarrow> message_only (payload r)"
  by (cases c)
    (auto simp: distance_def midpoint_def section_point_def parametric_point_def Let_def
      dest!: exn_bind_Inr split: prod.splits if_splits)

lemma lines_error:
  "run_lines c = Inr r \<Longrightarrow> status r = ''error'' \<Longrightarrow> message_only (payload r)"
  by (cases c)
    (auto simp: line_from_points_def intersection_def angle_between_lines_def
      distance_from_point_def foot_of_perpendicular_def angle_bisectors_def Let_def
      dest!: exn_bind_Inr split: list.splits if_splits)

lemma circles_error:
  "run_circles c = Inr r \<Longrightarrow> status r = ''error'' \<Longrightarrow> message_only (payload r)"
  by (cases c)
    (auto simp: circle_summary_def line_circle_intersection_def circle_circle_intersection_def
      tangents_from_external_point_def radical_axis_def Let_def
      dest!: exn_bind_Inr split: prod.splits if_splits)

lemma triangles_error:
  "run_triangles c = Inr r \<Longrightarrow> status r = ''error'' \<Longrightarrow> message_only (payload r)"
  by (cases c) (auto simp: triangle_summary_def Let_def)

lemma conics_error:
  "run_conics c = Inr r \<Longrightarrow> status r = ''error'' \<Longrightarrow> message_only (payload r)"
  by (cases c)
    (auto simp: parabola_y2_4ax_def parabola_x2_4ay_def ellipse_standard_def hyperbola_standard_def
      classify_general_quadratic_def line_conic_intersection_def message_only_def Let_def
      dest!: exn_bind_Inr split: if_splits)

lemma matrices_error:
  "run_matrices c = Inr r \<Longrightarrow> status r = ''error'' \<Longrightarrow> message_only (payload r)"
  by (cases c)
    (auto simp: matrix_addition_def matrix_multiplication_def matrix_determinant_def
      matrix_inverse_def eigen_analysis_def matrix_transform_def message_only_def Let_def
      dest!: exn_bind_Inr split: if_splits)

lemma locus_error:
  "run_locus c = Inr r \<Longrightarrow> status r = ''error'' \<Longrightarrow> message_only (payload r)"
  by (cases c)
    (auto simp: perpendicular_bisector_def apollonius_circle_def locus_midpoints_def
      message_only_def Let_def
      dest!: exn_bind_Inr split: prod.splits if_splits)

lemma transforms_error:
  "run_transforms c = Inr r \<Longrightarrow> status r = ''error'' \<Longrightarrow> message_only (payload r)"
  by (cases c)
    (auto simp: apply_translation_def apply_rotation_def apply_scaling_def apply_reflection_def
      apply_affine_def Let_def
      dest!: exn_bind_Inr split: if_splits)

lemma trig_error:
  "run_trig c = Inr r \<Longrightarrow> status r = ''error'' \<Longrightarrow> message_only (payload r)"
  by (cases c)
    (auto simp: plot_basic_trig_def transform_trig_def verify_identity_def solve_trig_equation_def
      message_only_def Let_def split: if_splits)

lemma calculus_error:
  "run_calculus c = Inr r \<Longrightarrow> status r = ''error'' \<Longrightarrow> message_only (payload r)"
  by (cases c)
    (auto simp: analyzer_plot_def derivative_at_def definite_integral_def critical_points_def
      taylor_polynomial_def Let_def split: if_splits)

text \<open>
  C7. Whatever operation of the engine is called and with whatever arguments, a returned
  result with status \<^verbatim>\<open>"error"\<close> has a payload with the single key \<^verbatim>\<open>"message"\<close>,
  whose value is a string: no numeric result.
\<close>

theorem error_status_message_only:
  assumes "run c = Inr r" and "status r = ''error''"
  shows "message_only (payload r)"
  using assms
  by (cases c)
    (auto intro: points_error lines_error circles_error triangles_error conics_error
       matrices_error locus_error transforms_error trig_error calculus_error)

theorem error_status_message_only_witness:
  "run (In_matrices (Call_matrix_addition [[1]] [[1, 2]])) =
     Inr \<lparr>status = ''error'', op = ''matrix_addition'',
          payload = [(''message'', PStr ''Matrices must share the same shape'')],
          warnings = []\<rparr> \<and>
   message_only [(''message'', PStr ''Matrices must share the same shape'')]"
proof -
  have call: "run (In_matrices (Call_matrix_addition [[1]] [[1, 2]])) =
     Inr \<lparr>status = ''error'', op = ''matrix_addition'',
          payload = [(''message'', PStr ''Matrices must share the same shape'')],
          warnings = []\<rparr>"
    by (simp add: matrix_addition_def ensure_matrix_def shape_def exn_bind_def)
  show ?thesis
    using call error_status_message_only [OF call] by simp
qed

end
